theory Spec2Isabelle
  imports Complex_Main
begin

section \<open>JavaScript strings\<close>

text \<open>
  A JavaScript string is modelled as a \<^typ>\<open>string\<close>. Of the code units that
  \<^verbatim>\<open>String.prototype.trim\<close> removes, the ones a \<^typ>\<open>char\<close> can hold are
  TAB, LF, VT, FF, CR, SPACE and NBSP.
\<close>

definition js_whitespace :: "char \<Rightarrow> bool" where
  "js_whitespace c =
     (c = CHR 0x09 \<or> c = CHR 0x0A \<or> c = CHR 0x0B \<or> c = CHR 0x0C \<or> c = CHR 0x0D
      \<or> c = CHR 0x20 \<or> c = CHR 0xA0)"

definition trim :: "string \<Rightarrow> string" where
  "trim s = rev (dropWhile js_whitespace (rev (dropWhile js_whitespace s)))"

definition startsWith :: "string \<Rightarrow> string \<Rightarrow> bool" where
  "startsWith s p = (take (length p) s = p)"

definition endsWith :: "string \<Rightarrow> string \<Rightarrow> bool" where
  "endsWith s p = (length p \<le> length s \<and> drop (length s - length p) s = p)"

text \<open>
  \<^verbatim>\<open>text.replace(/^FENCE\n?/, "")\<close> for a literal \<open>FENCE\<close>: the pattern is
  anchored at the start, and the greedy \<^verbatim>\<open>\n?\<close> takes one line feed when there is one.
\<close>

definition replace_leading :: "string \<Rightarrow> string \<Rightarrow> string" where
  "replace_leading fence text =
     (if startsWith text fence
      then (case drop (length fence) text of
              [] \<Rightarrow> []
            | c # r \<Rightarrow> if c = CHR 0x0A then r else c # r)
      else text)"

text \<open>
  \<^verbatim>\<open>text.replace(/\n?```$/, "")\<close>: without the \<^verbatim>\<open>m\<close> flag \<^verbatim>\<open>$\<close> is the end of the
  input, and the leftmost match starts at the line feed when one precedes the fence.
\<close>

definition replace_trailing :: "string \<Rightarrow> string" where
  "replace_trailing text =
     (if endsWith text (CHR 0x0A # ''```'') then take (length text - 4) text
      else if endsWith text ''```'' then take (length text - 3) text
      else text)"

text \<open>
  The white space of the JSON grammar (ECMA-404), which is all that \<^verbatim>\<open>JSON.parse\<close> skips
  around a value: TAB, LF, CR and SPACE. \<open>json_strip\<close> removes it at both ends.
\<close>

definition json_whitespace :: "char \<Rightarrow> bool" where
  "json_whitespace c = (c = CHR 0x09 \<or> c = CHR 0x0A \<or> c = CHR 0x0D \<or> c = CHR 0x20)"

definition json_strip :: "string \<Rightarrow> string" where
  "json_strip s = rev (dropWhile json_whitespace (rev (dropWhile json_whitespace s)))"

section \<open>The AI client (\<^verbatim>\<open>analyzeWithGemini\<close>, the same in both source files)\<close>

text \<open>
  Everything the handlers catch is an \<open>exn\<close>: a rejected \<^verbatim>\<open>generateContent\<close> call,
  the client's \<^verbatim>\<open>Error("No response from AI")\<close>, the \<^verbatim>\<open>SyntaxError\<close> of
  \<^verbatim>\<open>JSON.parse\<close>, and the two validation errors the handlers throw themselves.
\<close>

datatype exn =
    ApiError string
  | NoResponse
  | JsonSyntaxError
  | NoVersionsGenerated
  | NoQuestionsGenerated

text \<open>
  The outcome of the awaited \<^verbatim>\<open>ai.models.generateContent(...)\<close>: it throws, or it gives
  a response whose \<^verbatim>\<open>text\<close> may be undefined.
\<close>

type_synonym response = "exn + string option"

datatype 'j reply = PlainText string | Json 'j

text \<open>
  \<^verbatim>\<open>JSON.parse\<close> belongs to the runtime, so it is the parameter \<open>parse\<close>; \<open>None\<close> is its
  \<^verbatim>\<open>SyntaxError\<close>. Its result type \<open>'j\<close> is the shape the caller reads the value at: an
  object, as every schema in the source asks for, with the properties the caller reads,
  any of which may be missing. \<open>schema\<close> tells whether a response schema was passed.
\<close>

definition analyzeWithGemini :: "(string \<Rightarrow> 'j option) \<Rightarrow> response \<Rightarrow> bool \<Rightarrow> exn + 'j reply" where
  "analyzeWithGemini parse response schema =
     (case response of
        Inl e \<Rightarrow> Inl e
      | Inr None \<Rightarrow> Inl NoResponse
      | Inr (Some text0) \<Rightarrow>
          if text0 = [] then Inl NoResponse
          else if schema then
            (let text1 = trim text0;
                 text2 = (if startsWith text1 ''```json''
                          then replace_trailing (replace_leading ''```json'' text1)
                          else if startsWith text1 ''```''
                          then replace_trailing (replace_leading ''```'' text1)
                          else text1)
             in case parse text2 of
                  None \<Rightarrow> Inl JsonSyntaxError
                | Some v \<Rightarrow> Inr (Json v))
          else Inr (PlainText text0))"

section \<open>Data model\<close>

record User =
  email :: string
  name :: string

datatype Priority = High | Medium | Low

record Recommendation =
  priority :: Priority
  suggestion :: string
  location :: string

record KeywordDensity =
  term_k :: string
  count_k :: rat

text \<open>
  A number field holds the rational that the stored JavaScript number denotes; the model
  does no arithmetic on these fields.
\<close>

record AnalysisResult =
  match_score :: rat
  missing_keywords :: "string list"
  keyword_density :: "KeywordDensity list"
  formatting_issues :: "string list"
  skills_gap :: "string list"
  recommendations :: "Recommendation list"

datatype QuestionType = Behavioral | Technical | Situational

record InterviewQuestion =
  type_q :: QuestionType
  question :: string
  why_asked :: string

record AnswerFeedback =
  score :: rat
  strengths :: "string list"
  improvements :: "string list"
  model_answer :: string
  specific_feedback :: string

text \<open>
  \<^verbatim>\<open>ResumeVersion\<close> and \<^verbatim>\<open>CoverLetterVersion\<close> have the same three fields, so under
  TypeScript's structural typing they are one type.
\<close>

record ResumeVersion =
  id_v :: string
  name_v :: string
  content :: string

type_synonym CoverLetterVersion = ResumeVersion

text \<open>
  What the handlers read from a parsed AI result: \<^verbatim>\<open>result.versions\<close> and
  \<^verbatim>\<open>result.questions\<close>, each of which may be missing (\<open>None\<close>).
\<close>

record VersionsResult =
  versions :: "ResumeVersion list option"

record QuestionsResult =
  questions_r :: "InterviewQuestion list option"

section \<open>The application of \<^verbatim>\<open>src/index.tsx\<close>\<close>

datatype Step =
  Landing | Upload | JobDesc | Analysis | CoverLetter | InterviewIntro | InterviewPractice
  | Summary | History

datatype Tab = TabAnalysis | TabOptimized

datatype InputMode = TextMode | UrlMode

record Answer =
  questionIndex :: nat
  userAnswer :: string
  feedback :: "AnswerFeedback option"

text \<open>
  \<open>'v\<close> is what the two artifact arrays hold: the version records themselves, or
  (in the section on the store) references to them. \<open>coverLetters\<close> is an option because
  \<^verbatim>\<open>handleGenerateCoverLetters\<close> stores \<^verbatim>\<open>result.versions\<close> unchecked, so the field
  can become undefined (\<open>None\<close>).
\<close>

record 'v SessionData =
  id_s :: string
  timestamp :: nat
  resumeText :: string
  jobDescription :: string
  jobUrl :: "string option"
  fileName :: string
  analysis :: "AnalysisResult option"
  optimizedResumes :: "'v list"
  selectedResumeIndex :: nat
  coverLetters :: "'v list option"
  selectedCoverLetterIndex :: nat
  questions :: "InterviewQuestion list"
  answers :: "Answer list"

type_synonym Session = "ResumeVersion SessionData"

text \<open>
  \<^verbatim>\<open>localStorage\<close>, with each stored JSON text taken as the value it encodes: the key
  \<^verbatim>\<open>cc_user_session\<close>, and the keys \<^verbatim>\<open>cc_history_<email>\<close> as a map from the email.
\<close>

record LocalStorage =
  cc_user_session :: "User option"
  cc_history :: "string \<rightharpoonup> Session list"

text \<open>
  The state of the \<^verbatim>\<open>App\<close> component. \<open>aiCalls\<close> is not in the source: it counts the
  invocations of \<^verbatim>\<open>analyzeWithGemini\<close>.
\<close>

record App =
  currentStep :: Step
  loading :: bool
  loadingMessage :: string
  error :: "string option"
  activeTab :: Tab
  jobInputMode :: InputMode
  editingContent :: "string option"
  history :: "Session list"
  user :: "User option"
  showAuthModal :: bool
  session :: Session
  storage :: LocalStorage
  aiCalls :: nat

text \<open>
  The initial values of the \<^verbatim>\<open>useState\<close> calls; \<open>uuid\<close> and \<open>now\<close> are what
  \<^verbatim>\<open>crypto.randomUUID()\<close> and \<^verbatim>\<open>Date.now()\<close> give, \<open>ls\<close> is what the browser has stored.
\<close>

definition initialSession :: "string \<Rightarrow> nat \<Rightarrow> 'v SessionData" where
  "initialSession uuid now =
     \<lparr>id_s = uuid, timestamp = now, resumeText = [], jobDescription = [], jobUrl = None,
      fileName = [], analysis = None, optimizedResumes = [], selectedResumeIndex = 0,
      coverLetters = Some [], selectedCoverLetterIndex = 0, questions = [], answers = []\<rparr>"

definition initialApp :: "string \<Rightarrow> nat \<Rightarrow> LocalStorage \<Rightarrow> App" where
  "initialApp uuid now ls =
     \<lparr>currentStep = Landing, loading = False, loadingMessage = [], error = None,
      activeTab = TabAnalysis, jobInputMode = TextMode, editingContent = None, history = [],
      user = None, showAuthModal = False, session = initialSession uuid now, storage = ls,
      aiCalls = 0\<rparr>"

text \<open>
  An event handler is a function from the state in which it is invoked to the state once
  it has run to its end, given the outcome of the AI call it awaits. While it waits the
  component renders only the loading screen, so no other handler runs in between.
  \<^verbatim>\<open>try\<close>/\<^verbatim>\<open>catch\<close>/\<^verbatim>\<open>finally\<close> is the value \<open>tried\<close>: \<open>Inl\<close> what was thrown, \<open>Inr\<close> the
  state at the end of the \<^verbatim>\<open>try\<close> block. Every handler passes a schema, so the reply it
  gets is never \<open>PlainText\<close> (lemma \<open>analyzeWithGemini_schema_not_text\<close>); in that
  branch \<^verbatim>\<open>result.versions\<close> and \<^verbatim>\<open>result.questions\<close> are the missing property of a
  string, and a handler that stores \<^verbatim>\<open>result\<close> whole is given a failure.
\<close>

definition loadHistory :: "string \<Rightarrow> App \<Rightarrow> App" where
  "loadHistory email' st =
     (case cc_history (storage st) email' of
        Some savedHistory \<Rightarrow> st\<lparr>history := savedHistory\<rparr>
      | None \<Rightarrow> st\<lparr>history := []\<rparr>)"

definition handleLogin :: "User \<Rightarrow> App \<Rightarrow> App" where
  "handleLogin newUser st =
     (let st1 = loadHistory (email newUser) (st\<lparr>user := Some newUser\<rparr>)
      in if currentStep st = Summary
         then
           (let parsedHistory = (case cc_history (storage st) (email newUser) of
                                   Some h \<Rightarrow> h | None \<Rightarrow> []);
                newHistory = session st # parsedHistory
            in st1\<lparr>history := newHistory,
                   storage := (storage st)\<lparr>cc_history :=
                                (cc_history (storage st))(email newUser \<mapsto> newHistory)\<rparr>\<rparr>)
         else st1)"

definition handleLogout :: "App \<Rightarrow> App" where
  "handleLogout st =
     st\<lparr>storage := (storage st)\<lparr>cc_user_session := None\<rparr>,
        user := None, history := [], currentStep := Landing\<rparr>"

definition handleAnalyze :: "(string \<Rightarrow> AnalysisResult option) \<Rightarrow> response \<Rightarrow> App \<Rightarrow> App" where
  "handleAnalyze parse response st =
     (if trim (jobDescription (session st)) = []
      then st\<lparr>error := Some ''Please enter a job description''\<rparr>
      else
        let st1 = st\<lparr>loading := True,
                     loadingMessage := ''AI is analyzing your resume fit...'',
                     error := None, aiCalls := aiCalls st + 1\<rparr>;
            tried = (case analyzeWithGemini parse response True of
                       Inl e \<Rightarrow> Inl e
                     | Inr (PlainText t) \<Rightarrow> Inl JsonSyntaxError
                     | Inr (Json result) \<Rightarrow>
                         Inr (st1\<lparr>session := (session st1)\<lparr>analysis := Some result\<rparr>,
                                  currentStep := Analysis\<rparr>))
        in case tried of
             Inl e \<Rightarrow> st1\<lparr>error := Some ''Failed to analyze resume. Please try again.'',
                          loading := False\<rparr>
           | Inr st2 \<Rightarrow> st2\<lparr>loading := False\<rparr>)"

definition handleGenerateOptimizedResumes ::
  "(string \<Rightarrow> VersionsResult option) \<Rightarrow> response \<Rightarrow> App \<Rightarrow> App" where
  "handleGenerateOptimizedResumes parse response st =
     (if analysis (session st) = None then st
      else
        let st1 = st\<lparr>loading := True,
                     loadingMessage := ''Generating 3 optimized resume variations...'',
                     aiCalls := aiCalls st + 1\<rparr>;
            tried = (case analyzeWithGemini parse response True of
                       Inl e \<Rightarrow> Inl e
                     | Inr (PlainText t) \<Rightarrow> Inl NoVersionsGenerated
                     | Inr (Json result) \<Rightarrow>
                         (case versions result of
                            None \<Rightarrow> Inl NoVersionsGenerated
                          | Some vs \<Rightarrow>
                              if length vs = 0 then Inl NoVersionsGenerated
                              else Inr (st1\<lparr>session := (session st1)
                                             \<lparr>optimizedResumes := vs, selectedResumeIndex := 0\<rparr>,
                                            activeTab := TabOptimized\<rparr>)))
        in case tried of
             Inl e \<Rightarrow> st1\<lparr>error := Some ''Failed to generate optimized resumes. Please try again.'',
                          loading := False\<rparr>
           | Inr st2 \<Rightarrow> st2\<lparr>loading := False\<rparr>)"

definition handleGenerateCoverLetters ::
  "(string \<Rightarrow> VersionsResult option) \<Rightarrow> response \<Rightarrow> App \<Rightarrow> App" where
  "handleGenerateCoverLetters parse response st =
     (let st1 = st\<lparr>loading := True, loadingMessage := ''Drafting 3 cover letter options...'',
                   aiCalls := aiCalls st + 1\<rparr>;
          tried = (case analyzeWithGemini parse response True of
                     Inl e \<Rightarrow> Inl e
                   | Inr (PlainText t) \<Rightarrow>
                       Inr (st1\<lparr>session := (session st1)
                                  \<lparr>coverLetters := None, selectedCoverLetterIndex := 0\<rparr>,
                                currentStep := CoverLetter\<rparr>)
                   | Inr (Json result) \<Rightarrow>
                       Inr (st1\<lparr>session := (session st1)
                                  \<lparr>coverLetters := versions result,
                                   selectedCoverLetterIndex := 0\<rparr>,
                                currentStep := CoverLetter\<rparr>))
      in case tried of
           Inl e \<Rightarrow> st1\<lparr>error := Some ''Failed to generate cover letters.'', loading := False\<rparr>
         | Inr st2 \<Rightarrow> st2\<lparr>loading := False\<rparr>)"

definition handleGenerateQuestions ::
  "(string \<Rightarrow> QuestionsResult option) \<Rightarrow> response \<Rightarrow> App \<Rightarrow> App" where
  "handleGenerateQuestions parse response st =
     (let st1 = st\<lparr>loading := True, loadingMessage := ''Curating interview questions...'',
                   aiCalls := aiCalls st + 1\<rparr>;
          tried = (case analyzeWithGemini parse response True of
                     Inl e \<Rightarrow> Inl e
                   | Inr (PlainText t) \<Rightarrow> Inl NoQuestionsGenerated
                   | Inr (Json result) \<Rightarrow>
                       (case questions_r result of
                          None \<Rightarrow> Inl NoQuestionsGenerated
                        | Some qs \<Rightarrow>
                            if length qs = 0 then Inl NoQuestionsGenerated
                            else Inr (st1\<lparr>session := (session st1)\<lparr>questions := qs\<rparr>,
                                          currentStep := InterviewIntro\<rparr>)))
      in case tried of
           Inl e \<Rightarrow> st1\<lparr>error := Some ''Failed to generate interview questions. Please try again.'',
                        loading := False\<rparr>
         | Inr st2 \<Rightarrow> st2\<lparr>loading := False\<rparr>)"

text \<open>\<^verbatim>\<open>Array.prototype.findIndex\<close>: the first index whose element passes, or \<open>-1\<close>.\<close>

fun findIndex :: "('a \<Rightarrow> bool) \<Rightarrow> 'a list \<Rightarrow> int" where
  "findIndex P [] = - 1"
| "findIndex P (x # xs) =
     (if P x then 0 else (let i = findIndex P xs in if i = - 1 then - 1 else i + 1))"

text \<open>\<^verbatim>\<open>arr.splice(i, 1)\<close> for an index \<open>i\<close> that is not negative.\<close>

definition splice1 :: "int \<Rightarrow> 'a list \<Rightarrow> 'a list" where
  "splice1 i xs = take (nat i) xs @ drop (nat i + 1) xs"

text \<open>The \<^verbatim>\<open>onAnswerSubmit\<close> callback that \<^verbatim>\<open>App\<close> passes to \<^verbatim>\<open>InterviewSession\<close>.\<close>

definition onAnswerSubmit :: "nat \<Rightarrow> string \<Rightarrow> AnswerFeedback \<Rightarrow> App \<Rightarrow> App" where
  "onAnswerSubmit index answer fb st =
     (let prev = session st;
          newAnswers0 = answers prev;
          existingIdx = findIndex (\<lambda>a. questionIndex a = index) newAnswers0;
          newAnswers1 = (if existingIdx > - 1 then splice1 existingIdx newAnswers0
                         else newAnswers0);
          newAnswers2 = newAnswers1 @
            [\<lparr>questionIndex = index, userAnswer = answer, feedback = Some fb\<rparr>]
      in st\<lparr>session := prev\<lparr>answers := newAnswers2\<rparr>\<rparr>)"

text \<open>The local state of the \<^verbatim>\<open>InterviewSession\<close> component and its \<^verbatim>\<open>handleSubmit\<close>;
  the \<^verbatim>\<open>alert\<close> of the \<^verbatim>\<open>catch\<close> block changes no state.\<close>

record InterviewSession =
  currentIndex :: nat
  answerText :: string
  isAnalyzing :: bool
  feedback_shown :: "AnswerFeedback option"

definition InterviewSession_handleSubmit ::
  "(string \<Rightarrow> AnswerFeedback option) \<Rightarrow> response \<Rightarrow> InterviewSession \<Rightarrow> App
     \<Rightarrow> InterviewSession \<times> App" where
  "InterviewSession_handleSubmit parse response loc st =
     (if trim (answerText loc) = [] then (loc, st)
      else
        let loc1 = loc\<lparr>isAnalyzing := True\<rparr>;
            st1 = st\<lparr>aiCalls := aiCalls st + 1\<rparr>;
            tried = (case analyzeWithGemini parse response True of
                       Inl e \<Rightarrow> Inl e
                     | Inr (PlainText t) \<Rightarrow> Inl JsonSyntaxError
                     | Inr (Json result) \<Rightarrow>
                         Inr (loc1\<lparr>feedback_shown := Some result\<rparr>,
                              onAnswerSubmit (currentIndex loc1) (answerText loc1) result st1))
        in (case tried of
              Inl e \<Rightarrow> (loc1\<lparr>isAnalyzing := False\<rparr>, st1)
            | Inr fin \<Rightarrow> ((fst fin)\<lparr>isAnalyzing := False\<rparr>, snd fin)))"

section \<open>"Save Changes" on the store (\<^verbatim>\<open>src/index.tsx\<close>)\<close>

text \<open>
  The two "Save Changes" handlers assign to a property of an array element, so for them
  the version objects live in a store and the arrays of the Session hold references.
  \<^verbatim>\<open>[...session.optimizedResumes]\<close> is a new array of the same references. The edited text
  is the \<^verbatim>\<open>editingContent\<close> of the state, which is not null where the button is rendered.
  An index outside the array reads undefined, and the assignment to its property throws in
  the handler, before any state is set; so does spreading an undefined \<^verbatim>\<open>coverLetters\<close>.
\<close>

type_synonym ref = nat

record AppStore =
  objects :: "ref \<Rightarrow> ResumeVersion"
  session_h :: "ref SessionData"
  editingContent_h :: "string option"

definition saveResumeChanges :: "string \<Rightarrow> AppStore \<Rightarrow> AppStore" where
  "saveResumeChanges editing st =
     (let updatedResumes = optimizedResumes (session_h st);
          i = selectedResumeIndex (session_h st)
      in if i < length updatedResumes
         then st\<lparr>objects := (objects st)
                      (updatedResumes ! i := (objects st (updatedResumes ! i))\<lparr>content := editing\<rparr>),
                 session_h := (session_h st)\<lparr>optimizedResumes := updatedResumes\<rparr>,
                 editingContent_h := None\<rparr>
         else st)"

definition saveCoverLetterChanges :: "string \<Rightarrow> AppStore \<Rightarrow> AppStore" where
  "saveCoverLetterChanges editing st =
     (case coverLetters (session_h st) of
        None \<Rightarrow> st
      | Some updated \<Rightarrow>
          let i = selectedCoverLetterIndex (session_h st)
          in if i < length updated
             then st\<lparr>objects := (objects st)
                          (updated ! i := (objects st (updated ! i))\<lparr>content := editing\<rparr>),
                     session_h := (session_h st)\<lparr>coverLetters := Some updated\<rparr>,
                     editingContent_h := None\<rparr>
             else st)"

text \<open>The Session value that a Session of references denotes in a store.\<close>

definition sessionValue :: "(ref \<Rightarrow> ResumeVersion) \<Rightarrow> ref SessionData \<Rightarrow> Session" where
  "sessionValue h s =
     \<lparr>id_s = id_s s, timestamp = timestamp s, resumeText = resumeText s,
      jobDescription = jobDescription s, jobUrl = jobUrl s, fileName = fileName s,
      analysis = analysis s, optimizedResumes = map h (optimizedResumes s),
      selectedResumeIndex = selectedResumeIndex s,
      coverLetters = map_option (map h) (coverLetters s),
      selectedCoverLetterIndex = selectedCoverLetterIndex s,
      questions = questions s, answers = answers s\<rparr>"

section \<open>The application of \<^verbatim>\<open>src/unnamed/part_000\<close>\<close>

text \<open>
  Names that \<^verbatim>\<open>src/index.tsx\<close> also has carry the suffix \<open>_p0\<close>. The interfaces
  \<^verbatim>\<open>User\<close>, \<^verbatim>\<open>AnalysisResult\<close>, \<^verbatim>\<open>InterviewQuestion\<close> and \<^verbatim>\<open>AnswerFeedback\<close> are
  the same in both files.
\<close>

datatype Step_p0 =
  Landing_p0 | Upload_p0 | JobDesc_p0 | Analysis_p0 | Dashboard_p0 | CoverLetter_p0
  | WrittenPractice_p0 | VerbalPractice_p0 | CandidateQuestions_p0 | MockInterview_p0
  | MockAnalysis_p0 | Summary_p0 | History_p0

record ResumeVersion_p0 = ResumeVersion +
  isSelected :: "bool option"

type_synonym CoverLetterVersion_p0 = ResumeVersion_p0

record CandidateQuestion =
  question_c :: string
  context_c :: string

record WrittenAnswer =
  questionIndex_w :: nat
  answer :: string
  feedback_w :: "AnswerFeedback option"

record VerbalAnswer =
  questionIndex_vb :: nat
  transcript :: string
  feedback_vb :: "AnswerFeedback option"

datatype Role = RoleAi | RoleUser

record Utterance =
  role :: Role
  text_u :: string

text \<open>
  \<open>questions_p0\<close> is an option because \<^verbatim>\<open>handleGenerateQuestions\<close> of this file stores
  \<^verbatim>\<open>result.questions\<close> unchecked.
\<close>

record SessionData_p0 =
  id_s_p0 :: string
  timestamp_p0 :: nat
  resumeText_p0 :: string
  jobDescription_p0 :: string
  jobUrl_p0 :: "string option"
  fileName_p0 :: string
  analysis_p0 :: "AnalysisResult option"
  optimizedResumes_p0 :: "ResumeVersion_p0 list"
  selectedResumeIndex_p0 :: nat
  coverLetters_p0 :: "CoverLetterVersion_p0 list"
  selectedCoverLetterIndex_p0 :: nat
  questions_p0 :: "InterviewQuestion list option"
  writtenAnswers :: "WrittenAnswer list"
  verbalAnswers :: "VerbalAnswer list"
  candidateQuestions :: "CandidateQuestion list"
  mockInterviewTranscript :: "Utterance list"
  mockInterviewFeedback :: "string option"

record LocalStorage_p0 =
  cc_user_session_p0 :: "User option"
  cc_history_p0 :: "string \<rightharpoonup> SessionData_p0 list"

record App_p0 =
  currentStep_p0 :: Step_p0
  loading_p0 :: bool
  loadingMessage_p0 :: string
  error_p0 :: "string option"
  history_p0 :: "SessionData_p0 list"
  user_p0 :: "User option"
  showAuthModal_p0 :: bool
  stepHistory :: "Step_p0 list"
  session_p0 :: SessionData_p0
  storage_p0 :: LocalStorage_p0
  aiCalls_p0 :: nat

definition initialSession_p0 :: "string \<Rightarrow> nat \<Rightarrow> SessionData_p0" where
  "initialSession_p0 uuid now =
     \<lparr>id_s_p0 = uuid, timestamp_p0 = now, resumeText_p0 = [], jobDescription_p0 = [],
      jobUrl_p0 = None, fileName_p0 = [], analysis_p0 = None, optimizedResumes_p0 = [],
      selectedResumeIndex_p0 = 0, coverLetters_p0 = [], selectedCoverLetterIndex_p0 = 0,
      questions_p0 = Some [], writtenAnswers = [], verbalAnswers = [], candidateQuestions = [],
      mockInterviewTranscript = [], mockInterviewFeedback = None\<rparr>"

definition initialApp_p0 :: "string \<Rightarrow> nat \<Rightarrow> LocalStorage_p0 \<Rightarrow> App_p0" where
  "initialApp_p0 uuid now ls =
     \<lparr>currentStep_p0 = Landing_p0, loading_p0 = False, loadingMessage_p0 = [],
      error_p0 = None, history_p0 = [], user_p0 = None, showAuthModal_p0 = False,
      stepHistory = [], session_p0 = initialSession_p0 uuid now, storage_p0 = ls,
      aiCalls_p0 = 0\<rparr>"

text \<open>\<^verbatim>\<open>window.scrollTo(0, 0)\<close> acts on the view only and is left out.\<close>

definition navigateTo :: "Step_p0 \<Rightarrow> App_p0 \<Rightarrow> App_p0" where
  "navigateTo step st =
     st\<lparr>stepHistory := stepHistory st @ [currentStep_p0 st], currentStep_p0 := step\<rparr>"

definition handleBack :: "App_p0 \<Rightarrow> App_p0" where
  "handleBack st =
     (if length (stepHistory st) = 0 then st
      else
        let prevStep = stepHistory st ! (length (stepHistory st) - 1)
        in st\<lparr>stepHistory := take (length (stepHistory st) - 1) (stepHistory st),
               currentStep_p0 := prevStep\<rparr>)"

definition loadHistory_p0 :: "string \<Rightarrow> App_p0 \<Rightarrow> App_p0" where
  "loadHistory_p0 email' st =
     (case cc_history_p0 (storage_p0 st) email' of
        Some savedHistory \<Rightarrow> st\<lparr>history_p0 := savedHistory\<rparr>
      | None \<Rightarrow> st)"

definition handleLogin_p0 :: "User \<Rightarrow> App_p0 \<Rightarrow> App_p0" where
  "handleLogin_p0 newUser st = loadHistory_p0 (email newUser) (st\<lparr>user_p0 := Some newUser\<rparr>)"

definition handleLogout_p0 :: "App_p0 \<Rightarrow> App_p0" where
  "handleLogout_p0 st =
     st\<lparr>storage_p0 := (storage_p0 st)\<lparr>cc_user_session_p0 := None\<rparr>,
        user_p0 := None, history_p0 := [], currentStep_p0 := Landing_p0, stepHistory := []\<rparr>"

definition handleAnalyze_p0 ::
  "(string \<Rightarrow> AnalysisResult option) \<Rightarrow> response \<Rightarrow> App_p0 \<Rightarrow> App_p0" where
  "handleAnalyze_p0 parse response st =
     (let st1 = st\<lparr>loading_p0 := True,
                   loadingMessage_p0 := ''AI is analyzing your resume fit...'',
                   aiCalls_p0 := aiCalls_p0 st + 1\<rparr>;
          tried = (case analyzeWithGemini parse response True of
                     Inl e \<Rightarrow> Inl e
                   | Inr (PlainText t) \<Rightarrow> Inl JsonSyntaxError
                   | Inr (Json result) \<Rightarrow>
                       Inr (navigateTo Analysis_p0
                              (st1\<lparr>session_p0 := (session_p0 st1)\<lparr>analysis_p0 := Some result\<rparr>\<rparr>)))
      in case tried of
           Inl e \<Rightarrow> st1\<lparr>error_p0 := Some ''Analysis failed'', loading_p0 := False\<rparr>
         | Inr st2 \<Rightarrow> st2\<lparr>loading_p0 := False\<rparr>)"

text \<open>
  A click on the "Analyze Fit" button of the job-description step, which is rendered with
  \<^verbatim>\<open>onClick={handleAnalyze} disabled={!session.jobDescription}\<close>: a disabled button
  dispatches no click.
\<close>

definition AnalyzeFit_onClick_p0 ::
  "(string \<Rightarrow> AnalysisResult option) \<Rightarrow> response \<Rightarrow> App_p0 \<Rightarrow> App_p0" where
  "AnalyzeFit_onClick_p0 parse response st =
     (if jobDescription_p0 (session_p0 st) = [] then st
      else handleAnalyze_p0 parse response st)"

definition handleGenerateQuestions_p0 ::
  "(string \<Rightarrow> QuestionsResult option) \<Rightarrow> response \<Rightarrow> App_p0 \<Rightarrow> App_p0" where
  "handleGenerateQuestions_p0 parse response st =
     (let st1 = st\<lparr>loading_p0 := True, loadingMessage_p0 := ''Generating questions...'',
                   aiCalls_p0 := aiCalls_p0 st + 1\<rparr>;
          tried = (case analyzeWithGemini parse response True of
                     Inl e \<Rightarrow> Inl e
                   | Inr (PlainText t) \<Rightarrow>
                       Inr (navigateTo WrittenPractice_p0
                              (st1\<lparr>session_p0 := (session_p0 st1)\<lparr>questions_p0 := None\<rparr>\<rparr>))
                   | Inr (Json result) \<Rightarrow>
                       Inr (navigateTo WrittenPractice_p0
                              (st1\<lparr>session_p0 := (session_p0 st1)
                                    \<lparr>questions_p0 := questions_r result\<rparr>\<rparr>)))
      in case tried of
           Inl e \<Rightarrow> st1\<lparr>error_p0 := Some ''Failed to generate questions'', loading_p0 := False\<rparr>
         | Inr st2 \<Rightarrow> st2\<lparr>loading_p0 := False\<rparr>)"

text \<open>The \<^verbatim>\<open>onAnswerSubmit\<close> callback that \<^verbatim>\<open>App\<close> passes to \<^verbatim>\<open>WrittenPracticeSession\<close>.\<close>

definition onAnswerSubmit_p0 :: "nat \<Rightarrow> string \<Rightarrow> AnswerFeedback \<Rightarrow> App_p0 \<Rightarrow> App_p0" where
  "onAnswerSubmit_p0 idx ans fb st =
     (let newAnswers = filter (\<lambda>a. questionIndex_w a \<noteq> idx) (writtenAnswers (session_p0 st))
                       @ [\<lparr>questionIndex_w = idx, answer = ans, feedback_w = Some fb\<rparr>]
      in st\<lparr>session_p0 := (session_p0 st)\<lparr>writtenAnswers := newAnswers\<rparr>\<rparr>)"

text \<open>The local state of \<^verbatim>\<open>WrittenPracticeSession\<close> and its \<^verbatim>\<open>handleSubmit\<close>.\<close>

record WrittenPracticeSession =
  currentIndex_w :: nat
  answerText_w :: string
  isAnalyzing_w :: bool
  feedback_shown_w :: "AnswerFeedback option"

definition WrittenPracticeSession_handleSubmit ::
  "(string \<Rightarrow> AnswerFeedback option) \<Rightarrow> response \<Rightarrow> WrittenPracticeSession \<Rightarrow> App_p0
     \<Rightarrow> WrittenPracticeSession \<times> App_p0" where
  "WrittenPracticeSession_handleSubmit parse response loc st =
     (if trim (answerText_w loc) = [] then (loc, st)
      else
        let loc1 = loc\<lparr>isAnalyzing_w := True\<rparr>;
            st1 = st\<lparr>aiCalls_p0 := aiCalls_p0 st + 1\<rparr>;
            tried = (case analyzeWithGemini parse response True of
                       Inl e \<Rightarrow> Inl e
                     | Inr (PlainText t) \<Rightarrow> Inl JsonSyntaxError
                     | Inr (Json result) \<Rightarrow>
                         Inr (loc1\<lparr>feedback_shown_w := Some result\<rparr>,
                              onAnswerSubmit_p0 (currentIndex_w loc1) (answerText_w loc1) result st1))
        in (case tried of
              Inl e \<Rightarrow> (loc1\<lparr>isAnalyzing_w := False\<rparr>, st1)
            | Inr fin \<Rightarrow> ((fst fin)\<lparr>isAnalyzing_w := False\<rparr>, snd fin)))"

section \<open>The AI client: fences and failures\<close>

lemma analyzeWithGemini_schema_not_text:
  "analyzeWithGemini parse response True \<noteq> Inr (PlainText t)"
  by (simp add: analyzeWithGemini_def Let_def split: sum.splits option.splits)

lemma analyzeWithGemini_throws:
  "analyzeWithGemini parse (Inl e) schema = Inl e"
  "analyzeWithGemini parse (Inr None) schema = Inl NoResponse"
  "analyzeWithGemini parse (Inr (Some [])) schema = Inl NoResponse"
  by (simp_all add: analyzeWithGemini_def)


lemma analyze_braces:
  "analyzeWithGemini parse (Inr (Some ''{}'')) True
     = (case parse ''{}'' of None \<Rightarrow> Inl JsonSyntaxError | Some v \<Rightarrow> Inr (Json v))"
  by (simp add: analyzeWithGemini_def trim_def js_whitespace_def startsWith_def Let_def)

lemma trim_wrap:
  assumes pre: "\<forall>c\<in>set pre. js_whitespace c"
      and post: "\<forall>c\<in>set post. js_whitespace c"
      and x: "x \<noteq> []" "\<not> js_whitespace (hd x)" "\<not> js_whitespace (last x)"
  shows "trim (pre @ x @ post) = x"
proof -
  from x obtain a x' where ax: "x = a # x'" "\<not> js_whitespace a" by (cases x) auto
  from x have "rev x \<noteq> []" "hd (rev x) = last x" by (simp_all add: hd_rev)
  with x obtain z y' where zy: "rev x = z # y'" "\<not> js_whitespace z" by (cases "rev x") auto
  have "dropWhile js_whitespace (pre @ x @ post) = x @ post"
    using pre ax by (simp add: dropWhile_append)
  moreover have "dropWhile js_whitespace (rev post @ rev x) = rev x"
    using post zy by (simp add: dropWhile_append)
  ultimately show ?thesis by (simp add: trim_def)
qed

lemma json_strip_lf_left: "json_strip (CHR 0x0A # s) = json_strip s"
  by (simp add: json_strip_def json_whitespace_def)

lemma json_strip_lf_right: "json_strip (s @ [CHR 0x0A]) = json_strip s"
proof -
  have w: "json_whitespace (CHR 0x0A)" by (simp add: json_whitespace_def)
  show ?thesis
  proof (cases "\<forall>c\<in>set s. json_whitespace c")
    case True
    then have a: "dropWhile json_whitespace s = []" by simp
    from True w have "\<forall>c\<in>set (s @ [CHR 0x0A]). json_whitespace c" by simp
    then have b: "dropWhile json_whitespace (s @ [CHR 0x0A]) = []"
      by (simp only: dropWhile_eq_Nil_conv)
    show ?thesis by (simp only: json_strip_def a b)
  next
    case False
    then have "dropWhile json_whitespace (s @ [CHR 0x0A])
                 = dropWhile json_whitespace s @ [CHR 0x0A]"
      by (simp add: dropWhile_append)
    then show ?thesis using w by (simp add: json_strip_def)
  qed
qed

lemma startsWith_append: "startsWith (p @ r) p"
  by (simp add: startsWith_def)

lemma replace_leading_fence:
  "replace_leading fence (fence @ r)
     = (case r of [] \<Rightarrow> [] | c # r' \<Rightarrow> if c = CHR 0x0A then r' else c # r')"
  by (simp add: replace_leading_def startsWith_def)

lemma endsWith_lf_fence:
  "endsWith (s @ ''```'') (CHR 0x0A # ''```'') \<longleftrightarrow> s \<noteq> [] \<and> last s = CHR 0x0A"
proof (cases s rule: rev_cases)
  case Nil
  then show ?thesis by (simp add: endsWith_def)
next
  case (snoc s0 c)
  then show ?thesis by (auto simp: endsWith_def)
qed

lemma replace_trailing_lf_fence: "replace_trailing (s @ CHR 0x0A # ''```'') = s"
  by (simp add: replace_trailing_def endsWith_def)

lemma replace_trailing_fence:
  "replace_trailing (s @ ''```'')
     = (if s \<noteq> [] \<and> last s = CHR 0x0A then butlast s else s)"
proof (cases "s \<noteq> [] \<and> last s = CHR 0x0A")
  case True
  then obtain s0 where "s = s0 @ [CHR 0x0A]" by (metis append_butlast_last_id)
  then show ?thesis using True
    by (simp add: replace_trailing_def endsWith_def)
next
  case False
  then have "\<not> endsWith (s @ ''```'') (CHR 0x0A # ''```'')" by (simp add: endsWith_lf_fence)
  moreover have "endsWith (s @ ''```'') ''```''" by (simp add: endsWith_def)
  ultimately show ?thesis using False by (auto simp: replace_trailing_def)
qed

lemma parse_replace_trailing:
  assumes nl_r: "\<And>s. parse (s @ [CHR 0x0A]) = parse s"
      and cl: "closing = ''```'' \<or> closing = CHR 0x0A # ''```''"
  shows "parse (replace_trailing (s @ closing)) = parse s"
proof -
  from cl show ?thesis
  proof
    assume c: "closing = ''```''"
    show ?thesis
    proof (cases "s \<noteq> [] \<and> last s = CHR 0x0A")
      case True
      then have s: "s = butlast s @ [CHR 0x0A]" by (metis append_butlast_last_id)
      have "parse (butlast s) = parse (butlast s @ [CHR 0x0A])" by (simp add: nl_r)
      with s have "parse (butlast s) = parse s" by simp
      with True c show ?thesis by (simp add: replace_trailing_fence)
    next
      case False
      with c show ?thesis by (auto simp: replace_trailing_fence)
    qed
  next
    assume "closing = CHR 0x0A # ''```''"
    then show ?thesis by (simp add: replace_trailing_lf_fence)
  qed
qed

lemma parse_strip_fences:
  assumes nl_l: "\<And>s. parse (CHR 0x0A # s) = parse s"
      and nl_r: "\<And>s. parse (s @ [CHR 0x0A]) = parse s"
      and op: "opening = fence \<or> opening = fence @ [CHR 0x0A]"
      and cl: "closing = ''```'' \<or> closing = CHR 0x0A # ''```''"
  shows "parse (replace_trailing (replace_leading fence (opening @ b @ closing))) = parse b"
proof -
  from op show ?thesis
  proof
    assume "opening = fence @ [CHR 0x0A]"
    then have "replace_leading fence (opening @ b @ closing) = b @ closing"
      using replace_leading_fence[of fence "CHR 0x0A # b @ closing"] by simp
    then show ?thesis using parse_replace_trailing[where parse = parse, OF nl_r cl] by simp
  next
    assume o: "opening = fence"
    show ?thesis
    proof (cases b)
      case Nil
      from cl have "replace_leading fence (opening @ b @ closing) = [] @ ''```''"
        using o Nil replace_leading_fence[of fence closing] by auto
      then have "parse (replace_trailing (replace_leading fence (opening @ b @ closing)))
                 = parse []"
        using parse_replace_trailing[where parse = parse and closing = "''```''" and s = "[]", OF nl_r]
        by simp
      with Nil show ?thesis by simp
    next
      case (Cons c b1)
      show ?thesis
      proof (cases "c = CHR 0x0A")
        case True
        with Cons o have "replace_leading fence (opening @ b @ closing) = b1 @ closing"
          using replace_leading_fence[of fence "b @ closing"] by simp
        then have "parse (replace_trailing (replace_leading fence (opening @ b @ closing)))
                   = parse b1"
          using parse_replace_trailing[where parse = parse, OF nl_r cl] by simp
        with True Cons show ?thesis by (simp add: nl_l)
      next
        case False
        with Cons o have "replace_leading fence (opening @ b @ closing) = b @ closing"
          using replace_leading_fence[of fence "b @ closing"] by simp
        then show ?thesis using parse_replace_trailing[where parse = parse, OF nl_r cl] by simp
      qed
    qed
  qed
qed

lemma not_json_append:
  assumes nj: "\<not> startsWith b ''json''"
      and cl: "closing = ''```'' \<or> closing = CHR 0x0A # ''```''"
  shows "\<not> startsWith (''```'' @ b @ closing) ''```json''"
proof (cases b)
  case Nil
  with cl show ?thesis by (auto simp: startsWith_def)
next
  case c1: (Cons x1 b1)
  show ?thesis
  proof (cases b1)
    case Nil
    with c1 cl show ?thesis by (auto simp: startsWith_def)
  next
    case c2: (Cons x2 b2)
    show ?thesis
    proof (cases b2)
      case Nil
      with c1 c2 cl show ?thesis by (auto simp: startsWith_def)
    next
      case c3: (Cons x3 b3)
      show ?thesis
      proof (cases b3)
        case Nil
        with c1 c2 c3 cl show ?thesis by (auto simp: startsWith_def)
      next
        case (Cons x4 b4)
        with c1 c2 c3 nj show ?thesis by (auto simp: startsWith_def)
      qed
    qed
  qed
qed

lemma startsWith_json_fence:
  assumes "startsWith s ''```json''"
  shows "startsWith s ''```''"
proof -
  from assms have "take (length ''```json'') s = ''```json''" by (simp only: startsWith_def)
  then have "s = ''```json'' @ drop (length ''```json'') s"
    by (metis append_take_drop_id)
  then obtain r where "s = ''```json'' @ r" ..
  then show ?thesis by (simp add: startsWith_def)
qed

lemma analyze_fenced:
  assumes nl_l: "\<And>s. parse (CHR 0x0A # s) = parse s"
      and nl_r: "\<And>s. parse (s @ [CHR 0x0A]) = parse s"
      and pre: "\<forall>c\<in>set pre. js_whitespace c"
      and post: "\<forall>c\<in>set post. js_whitespace c"
      and op: "opening \<in> {''```json'', ''```json'' @ [CHR 0x0A], ''```'', ''```'' @ [CHR 0x0A]}"
      and cl: "closing \<in> {''```'', CHR 0x0A # ''```''}"
      and nj: "\<not> startsWith b ''json''"
  shows "analyzeWithGemini parse (Inr (Some (pre @ opening @ b @ closing @ post))) True
          = (case parse b of None \<Rightarrow> Inl JsonSyntaxError | Some v \<Rightarrow> Inr (Json v))"
proof -
  let ?x = "opening @ b @ closing"
  from cl have cl': "closing = ''```'' \<or> closing = CHR 0x0A # ''```''" by simp
  from op obtain o' where o': "opening = CHR 0x60 # o'" by auto
  then have hd: "hd ?x = CHR 0x60" by simp
  from cl' have "closing \<noteq> []" "last closing = CHR 0x60" by auto
  then have last: "last ?x = CHR 0x60" by simp
  have nw: "\<not> js_whitespace (CHR 0x60)" by (simp add: js_whitespace_def)
  from o' have ne: "?x \<noteq> []" by simp
  have "trim (pre @ ?x @ post) = ?x"
    using trim_wrap[OF pre post ne] hd last nw by simp
  then have tr: "trim (pre @ opening @ b @ closing @ post) = ?x" by simp
  from o' have ne0: "pre @ opening @ b @ closing @ post \<noteq> []" by simp
  consider (j) "opening = ''```json'' \<or> opening = ''```json'' @ [CHR 0x0A]"
    | (p) "opening = ''```'' \<or> opening = ''```'' @ [CHR 0x0A]"
    using op by auto
  then have "parse (if startsWith ?x ''```json''
                    then replace_trailing (replace_leading ''```json'' ?x)
                    else if startsWith ?x ''```''
                    then replace_trailing (replace_leading ''```'' ?x)
                    else ?x) = parse b"
  proof cases
    case j
    then have "startsWith ?x ''```json''" by (auto simp: startsWith_def)
    then show ?thesis
      using parse_strip_fences[where parse = parse and fence = "''```json''", OF nl_l nl_r j cl']
      by simp
  next
    case p
    have nsj: "\<not> startsWith ?x ''```json''"
    proof -
      from p show ?thesis
      proof
        assume "opening = ''```''"
        then show ?thesis using not_json_append[OF nj cl'] by simp
      next
        assume "opening = ''```'' @ [CHR 0x0A]"
        then show ?thesis by (simp add: startsWith_def)
      qed
    qed
    from p have "startsWith ?x ''```''" by (auto simp: startsWith_def)
    with nsj show ?thesis
      using parse_strip_fences[where parse = parse and fence = "''```''", OF nl_l nl_r p cl']
      by simp
  qed
  then show ?thesis
    using ne0 by (simp only: analyzeWithGemini_def tr Let_def sum.case option.case if_True if_False)
qed

lemma analyze_unfenced:
  assumes nf: "\<not> startsWith (trim t) ''```''" and t: "t \<noteq> []"
  shows "analyzeWithGemini parse (Inr (Some t)) True
          = (case parse (trim t) of None \<Rightarrow> Inl JsonSyntaxError | Some v \<Rightarrow> Inr (Json v))"
proof -
  from nf have "\<not> startsWith (trim t) ''```json''" using startsWith_json_fence by blast
  with nf t show ?thesis by (simp add: analyzeWithGemini_def Let_def)
qed

text \<open>
  With a line feed after the opening marker and one before the closing marker the cleaned
  text is the body itself, whatever the parser is.
\<close>

lemma analyze_canonical_fence:
  assumes pre: "\<forall>c\<in>set pre. js_whitespace c"
      and post: "\<forall>c\<in>set post. js_whitespace c"
      and fence: "fence = ''```json'' \<or> fence = ''```''"
  shows "analyzeWithGemini parse
           (Inr (Some (pre @ (fence @ [CHR 0x0A]) @ b @ (CHR 0x0A # ''```'') @ post))) True
          = (case parse b of None \<Rightarrow> Inl JsonSyntaxError | Some v \<Rightarrow> Inr (Json v))"
proof -
  let ?x = "(fence @ [CHR 0x0A]) @ b @ (CHR 0x0A # ''```'')"
  from fence obtain o' where o': "fence = CHR 0x60 # o'" by auto
  have nw: "\<not> js_whitespace (CHR 0x60)" by (simp add: js_whitespace_def)
  from o' have x: "?x \<noteq> []" "hd ?x = CHR 0x60" "last ?x = CHR 0x60" by simp_all
  have "trim (pre @ ?x @ post) = ?x"
    using trim_wrap[OF pre post x(1)] x(2,3) nw by simp
  then have tr: "trim (pre @ (fence @ [CHR 0x0A]) @ b @ (CHR 0x0A # ''```'') @ post) = ?x"
    by simp
  from o' have ne0: "pre @ (fence @ [CHR 0x0A]) @ b @ (CHR 0x0A # ''```'') @ post \<noteq> []"
    by simp
  have strip: "replace_trailing (replace_leading fence ?x) = b"
    using replace_leading_fence[of fence "CHR 0x0A # b @ (CHR 0x0A # ''```'')"]
      replace_trailing_lf_fence[of b] by simp
  from fence have "(if startsWith ?x ''```json''
                    then replace_trailing (replace_leading ''```json'' ?x)
                    else if startsWith ?x ''```''
                    then replace_trailing (replace_leading ''```'' ?x)
                    else ?x) = b"
  proof
    assume f: "fence = ''```json''"
    then have "startsWith ?x ''```json''" by (simp add: startsWith_def)
    with strip f show ?thesis by simp
  next
    assume f: "fence = ''```''"
    then have "\<not> startsWith ?x ''```json''" "startsWith ?x ''```''"
      by (simp_all add: startsWith_def)
    with strip f show ?thesis by simp
  qed
  then show ?thesis
    using ne0 by (simp only: analyzeWithGemini_def tr Let_def sum.case option.case if_True if_False)
qed

lemma analyze_untrimmed:
  assumes u: "u \<noteq> []" "\<not> js_whitespace (hd u)" "\<not> js_whitespace (last u)"
      and nf: "\<not> startsWith u ''```''"
  shows "analyzeWithGemini parse (Inr (Some u)) True
          = (case parse u of None \<Rightarrow> Inl JsonSyntaxError | Some v \<Rightarrow> Inr (Json v))"
proof -
  have "trim ([] @ u @ []) = u" using u by (intro trim_wrap) simp_all
  then have tr: "trim u = u" by simp
  with nf show ?thesis using analyze_unfenced[of u parse] u(1) by simp
qed

text \<open>
  C8, as stated, fails in its last part. The response \<^verbatim>\<open>\f[1]\<close> (a form feed before the
  text) has no fence. \<^verbatim>\<open>JSON.parse\<close> rejects it as it stands, a form feed not being JSON
  white space; the client trims it first and answers the parsed value. The parser here
  skips JSON white space and accepts the one document \<^verbatim>\<open>[1]\<close>.
\<close>

theorem unfenced_not_parsed_unchanged_counterexample:
  "\<not> startsWith (trim (CHR 0x0C # ''[1]'')) ''```''
   \<and> (if json_strip (CHR 0x0C # ''[1]'') = ''[1]'' then Some (1::nat) else None) = None
   \<and> analyzeWithGemini (\<lambda>s. if json_strip s = ''[1]'' then Some (1::nat) else None)
        (Inr (Some (CHR 0x0C # ''[1]''))) True
      = Inr (Json 1)"
  by (simp add: analyzeWithGemini_def trim_def js_whitespace_def json_strip_def
        json_whitespace_def startsWith_def)

text \<open>
  C8, amended. A schema-bearing response that is a fenced payload: optional surrounding
  white space, an opening marker \<^verbatim>\<open>```json\<close> or \<^verbatim>\<open>```\<close> with or without a line feed after
  it, a body \<open>b\<close>, and a closing marker \<^verbatim>\<open>```\<close> with or without a line feed before it. A
  JSON text does not begin with the letters \<^verbatim>\<open>json\<close>, and \<^verbatim>\<open>JSON.parse\<close> ignores a line
  feed at either end of its input. Then the client answers what parsing \<open>b\<close> gives: the
  parsed value, or the syntax error. A response \<open>t\<close> that does not start with a fence once
  trimmed is parsed after \<^verbatim>\<open>trim\<close> has removed its surrounding white space, with no other
  change; a response \<open>u\<close> without a fence that neither begins nor ends with white space
  is parsed unchanged.
\<close>

theorem fence_cleanup_parse:
  assumes nl_l: "\<And>s. parse (CHR 0x0A # s) = parse s"
      and nl_r: "\<And>s. parse (s @ [CHR 0x0A]) = parse s"
      and pre: "\<forall>c\<in>set pre. js_whitespace c"
      and post: "\<forall>c\<in>set post. js_whitespace c"
      and op: "opening \<in> {''```json'', ''```json'' @ [CHR 0x0A], ''```'', ''```'' @ [CHR 0x0A]}"
      and cl: "closing \<in> {''```'', CHR 0x0A # ''```''}"
      and nj: "\<not> startsWith b ''json''"
      and nf: "\<not> startsWith (trim t) ''```''" and t: "t \<noteq> []"
      and u: "u \<noteq> []" "\<not> js_whitespace (hd u)" "\<not> js_whitespace (last u)"
      and nfu: "\<not> startsWith u ''```''"
  shows "analyzeWithGemini parse (Inr (Some (pre @ opening @ b @ closing @ post))) True
           = (case parse b of None \<Rightarrow> Inl JsonSyntaxError | Some v \<Rightarrow> Inr (Json v))
         \<and> analyzeWithGemini parse (Inr (Some t)) True
           = (case parse (trim t) of None \<Rightarrow> Inl JsonSyntaxError | Some v \<Rightarrow> Inr (Json v))
         \<and> analyzeWithGemini parse (Inr (Some u)) True
           = (case parse u of None \<Rightarrow> Inl JsonSyntaxError | Some v \<Rightarrow> Inr (Json v))"
  using analyze_fenced[where parse = parse, OF nl_l nl_r pre post op cl nj]
    analyze_unfenced[where parse = parse, OF nf t]
    analyze_untrimmed[where parse = parse, OF u nfu]
  by simp

theorem fence_cleanup_parse_witness:
  "js_whitespace (CHR '' '') \<and> js_whitespace (CHR 0x0A)
   \<and> \<not> startsWith ''[1]'' ''json''
   \<and> \<not> startsWith (trim (CHR 0x0C # ''[1]'')) ''```''
   \<and> \<not> js_whitespace (hd ''[1]'') \<and> \<not> js_whitespace (last ''[1]'')
   \<and> \<not> startsWith ''[1]'' ''```''
   \<and> analyzeWithGemini (\<lambda>s. if json_strip s = ''[1]'' then Some (1::nat) else None)
        (Inr (Some ('' '' @ (''```json'' @ [CHR 0x0A]) @ ''[1]'' @ (CHR 0x0A # ''```'')
                     @ [CHR 0x0A]))) True
      = Inr (Json 1)
   \<and> analyzeWithGemini (\<lambda>s. if json_strip s = ''[1]'' then Some (1::nat) else None)
        (Inr (Some (CHR 0x0C # ''[1]''))) True
      = Inr (Json 1)
   \<and> analyzeWithGemini (\<lambda>s. if json_strip s = ''[1]'' then Some (1::nat) else None)
        (Inr (Some ''[1]'')) True
      = Inr (Json 1)"
proof -
  let ?parse = "\<lambda>s. if json_strip s = ''[1]'' then Some (1::nat) else None"
  have l: "\<And>s. ?parse (CHR 0x0A # s) = ?parse s" by (simp only: json_strip_lf_left)
  have r: "\<And>s. ?parse (s @ [CHR 0x0A]) = ?parse s" by (simp only: json_strip_lf_right)
  have pre: "\<forall>c\<in>set '' ''. js_whitespace c" by (simp add: js_whitespace_def)
  have post: "\<forall>c\<in>set [CHR 0x0A]. js_whitespace c" by (simp add: js_whitespace_def)
  have op: "''```json'' @ [CHR 0x0A]
              \<in> {''```json'', ''```json'' @ [CHR 0x0A], ''```'', ''```'' @ [CHR 0x0A]}"
    by simp
  have cl: "CHR 0x0A # ''```'' \<in> {''```'', CHR 0x0A # ''```''}" by simp
  have nj: "\<not> startsWith ''[1]'' ''json''" by (simp add: startsWith_def)
  have tr: "trim (CHR 0x0C # ''[1]'') = ''[1]''" by (simp add: trim_def js_whitespace_def)
  have js: "json_strip ''[1]'' = ''[1]''" by (simp add: json_strip_def json_whitespace_def)
  have nf: "\<not> startsWith (trim (CHR 0x0C # ''[1]'')) ''```''" by (simp add: tr startsWith_def)
  have t: "CHR 0x0C # ''[1]'' \<noteq> []" by simp
  have u: "''[1]'' \<noteq> []" "\<not> js_whitespace (hd ''[1]'')" "\<not> js_whitespace (last ''[1]'')"
    by (simp_all add: js_whitespace_def)
  have nfu: "\<not> startsWith ''[1]'' ''```''" by (simp add: startsWith_def)
  from fence_cleanup_parse[where parse = ?parse, OF l r pre post op cl nj nf t u nfu]
  have "analyzeWithGemini ?parse
        (Inr (Some ('' '' @ (''```json'' @ [CHR 0x0A]) @ ''[1]'' @ (CHR 0x0A # ''```'')
                     @ [CHR 0x0A]))) True
      = Inr (Json 1)
   \<and> analyzeWithGemini ?parse (Inr (Some (CHR 0x0C # ''[1]''))) True = Inr (Json 1)
   \<and> analyzeWithGemini ?parse (Inr (Some ''[1]'')) True = Inr (Json 1)"
    by (simp add: tr js)
  with nj nf u nfu show ?thesis by (simp add: js_whitespace_def)
qed

section \<open>Failed pipeline stages\<close>

lemma handleAnalyze_fail:
  "trim (jobDescription (session st)) = [] \<or> isl (analyzeWithGemini pa r True) \<Longrightarrow>
   session (handleAnalyze pa r st) = session st
   \<and> currentStep (handleAnalyze pa r st) = currentStep st"
  by (auto simp: handleAnalyze_def Let_def isl_def split: sum.splits reply.splits)

lemma handleGenerateOptimizedResumes_fail:
  "isl (analyzeWithGemini pv r True)
   \<or> (\<exists>res. analyzeWithGemini pv r True = Inr (Json res)
             \<and> (versions res = None \<or> versions res = Some [])) \<Longrightarrow>
   session (handleGenerateOptimizedResumes pv r st) = session st
   \<and> currentStep (handleGenerateOptimizedResumes pv r st) = currentStep st"
  by (auto simp: handleGenerateOptimizedResumes_def Let_def isl_def
           split: sum.splits reply.splits option.splits)

lemma handleGenerateCoverLetters_fail:
  "isl (analyzeWithGemini pv r True) \<Longrightarrow>
   session (handleGenerateCoverLetters pv r st) = session st
   \<and> currentStep (handleGenerateCoverLetters pv r st) = currentStep st"
  by (auto simp: handleGenerateCoverLetters_def Let_def isl_def
           split: sum.splits reply.splits option.splits)

lemma handleGenerateQuestions_fail:
  "isl (analyzeWithGemini pq r True)
   \<or> (\<exists>res. analyzeWithGemini pq r True = Inr (Json res)
             \<and> (questions_r res = None \<or> questions_r res = Some [])) \<Longrightarrow>
   session (handleGenerateQuestions pq r st) = session st
   \<and> currentStep (handleGenerateQuestions pq r st) = currentStep st"
  by (auto simp: handleGenerateQuestions_def Let_def isl_def
           split: sum.splits reply.splits option.splits)

lemma InterviewSession_handleSubmit_fail:
  "isl (analyzeWithGemini pf r True) \<Longrightarrow>
   session (snd (InterviewSession_handleSubmit pf r loc st)) = session st
   \<and> currentStep (snd (InterviewSession_handleSubmit pf r loc st)) = currentStep st"
  by (auto simp: InterviewSession_handleSubmit_def Let_def isl_def
           split: sum.splits reply.splits option.splits)

lemma handleAnalyze_p0_fail:
  "isl (analyzeWithGemini pa r True) \<Longrightarrow>
   session_p0 (handleAnalyze_p0 pa r st) = session_p0 st
   \<and> currentStep_p0 (handleAnalyze_p0 pa r st) = currentStep_p0 st"
  by (auto simp: handleAnalyze_p0_def Let_def isl_def split: sum.splits reply.splits)

lemma handleGenerateQuestions_p0_fail:
  "isl (analyzeWithGemini pq r True) \<Longrightarrow>
   session_p0 (handleGenerateQuestions_p0 pq r st) = session_p0 st
   \<and> currentStep_p0 (handleGenerateQuestions_p0 pq r st) = currentStep_p0 st"
  by (auto simp: handleGenerateQuestions_p0_def Let_def isl_def split: sum.splits reply.splits)

lemma WrittenPracticeSession_handleSubmit_fail:
  "isl (analyzeWithGemini pf r True) \<Longrightarrow>
   session_p0 (snd (WrittenPracticeSession_handleSubmit pf r loc st)) = session_p0 st
   \<and> currentStep_p0 (snd (WrittenPracticeSession_handleSubmit pf r loc st)) = currentStep_p0 st"
  by (auto simp: WrittenPracticeSession_handleSubmit_def Let_def isl_def
           split: sum.splits reply.splits option.splits)

text \<open>
  C2. A generation task fails when the AI client fails (\<open>isl\<close> of its result: the call
  threw, the response text was missing or empty, or the cleaned text did not parse), when
  the job description is blank at "Analyze Fit" in \<^verbatim>\<open>src/index.tsx\<close>, or when the resume
  or question validation of \<^verbatim>\<open>src/index.tsx\<close> rejects a missing or empty array. In each
  of the eight handlers of the two files, the Session and the current step after a failed
  run are those before it.
\<close>

theorem failed_stage_keeps_session:
  "(trim (jobDescription (session st)) = [] \<or> isl (analyzeWithGemini pa r True) \<longrightarrow>
      session (handleAnalyze pa r st) = session st
      \<and> currentStep (handleAnalyze pa r st) = currentStep st)
   \<and> (isl (analyzeWithGemini pv r True)
       \<or> (\<exists>res. analyzeWithGemini pv r True = Inr (Json res)
                 \<and> (versions res = None \<or> versions res = Some [])) \<longrightarrow>
      session (handleGenerateOptimizedResumes pv r st) = session st
      \<and> currentStep (handleGenerateOptimizedResumes pv r st) = currentStep st)
   \<and> (isl (analyzeWithGemini pv r True) \<longrightarrow>
      session (handleGenerateCoverLetters pv r st) = session st
      \<and> currentStep (handleGenerateCoverLetters pv r st) = currentStep st)
   \<and> (isl (analyzeWithGemini pq r True)
       \<or> (\<exists>res. analyzeWithGemini pq r True = Inr (Json res)
                 \<and> (questions_r res = None \<or> questions_r res = Some [])) \<longrightarrow>
      session (handleGenerateQuestions pq r st) = session st
      \<and> currentStep (handleGenerateQuestions pq r st) = currentStep st)
   \<and> (isl (analyzeWithGemini pf r True) \<longrightarrow>
      session (snd (InterviewSession_handleSubmit pf r loc st)) = session st
      \<and> currentStep (snd (InterviewSession_handleSubmit pf r loc st)) = currentStep st)
   \<and> (isl (analyzeWithGemini pa r True) \<longrightarrow>
      session_p0 (handleAnalyze_p0 pa r st') = session_p0 st'
      \<and> currentStep_p0 (handleAnalyze_p0 pa r st') = currentStep_p0 st')
   \<and> (isl (analyzeWithGemini pq r True) \<longrightarrow>
      session_p0 (handleGenerateQuestions_p0 pq r st') = session_p0 st'
      \<and> currentStep_p0 (handleGenerateQuestions_p0 pq r st') = currentStep_p0 st')
   \<and> (isl (analyzeWithGemini pf r True) \<longrightarrow>
      session_p0 (snd (WrittenPracticeSession_handleSubmit pf r loc' st')) = session_p0 st'
      \<and> currentStep_p0 (snd (WrittenPracticeSession_handleSubmit pf r loc' st'))
          = currentStep_p0 st')"
  using handleAnalyze_fail[of st pa r] handleGenerateOptimizedResumes_fail[of pv r st]
    handleGenerateCoverLetters_fail[of pv r st] handleGenerateQuestions_fail[of pq r st]
    InterviewSession_handleSubmit_fail[of pf r loc st] handleAnalyze_p0_fail[of pa r st']
    handleGenerateQuestions_p0_fail[of pq r st']
    WrittenPracticeSession_handleSubmit_fail[of pf r loc' st']
  by blast

theorem failed_stage_keeps_session_witness:
  "isl (analyzeWithGemini (\<lambda>s. None :: AnalysisResult option) (Inr (Some ''{}'')) True)
   \<and> analyzeWithGemini (\<lambda>s. Some \<lparr>versions = Some []\<rparr>) (Inr (Some ''{}'')) True
       = Inr (Json \<lparr>versions = Some []\<rparr>)
   \<and> analyzeWithGemini (\<lambda>s. Some \<lparr>questions_r = None\<rparr>) (Inr (Some ''{}'')) True
       = Inr (Json \<lparr>questions_r = None\<rparr>)
   \<and> isl (analyzeWithGemini (\<lambda>s. None :: AnswerFeedback option) (Inr (Some ''{}'')) True)
   \<and> session (handleAnalyze (\<lambda>s. None) (Inr (Some ''{}''))
         ((initialApp ''s1'' 0 \<lparr>cc_user_session = None, cc_history = Map.empty\<rparr>)
            \<lparr>currentStep := JobDesc,
             session := (initialSession ''s1'' 0)\<lparr>jobDescription := ''Engineer'',
               analysis := Some \<lparr>match_score = 72, missing_keywords = [], keyword_density = [],
                 formatting_issues = [], skills_gap = [], recommendations = []\<rparr>\<rparr>\<rparr>))
      = (initialSession ''s1'' 0)\<lparr>jobDescription := ''Engineer'',
               analysis := Some \<lparr>match_score = 72, missing_keywords = [], keyword_density = [],
                 formatting_issues = [], skills_gap = [], recommendations = []\<rparr>\<rparr>
   \<and> currentStep (handleAnalyze (\<lambda>s. None) (Inr (Some ''{}''))
         ((initialApp ''s1'' 0 \<lparr>cc_user_session = None, cc_history = Map.empty\<rparr>)
            \<lparr>currentStep := JobDesc,
             session := (initialSession ''s1'' 0)\<lparr>jobDescription := ''Engineer'',
               analysis := Some \<lparr>match_score = 72, missing_keywords = [], keyword_density = [],
                 formatting_issues = [], skills_gap = [], recommendations = []\<rparr>\<rparr>\<rparr>))
      = JobDesc
   \<and> session (handleGenerateOptimizedResumes (\<lambda>s. Some \<lparr>versions = Some []\<rparr>) (Inr (Some ''{}''))
         ((initialApp ''s1'' 0 \<lparr>cc_user_session = None, cc_history = Map.empty\<rparr>)
            \<lparr>currentStep := JobDesc,
             session := (initialSession ''s1'' 0)\<lparr>jobDescription := ''Engineer'',
               analysis := Some \<lparr>match_score = 72, missing_keywords = [], keyword_density = [],
                 formatting_issues = [], skills_gap = [], recommendations = []\<rparr>\<rparr>\<rparr>))
      = (initialSession ''s1'' 0)\<lparr>jobDescription := ''Engineer'',
               analysis := Some \<lparr>match_score = 72, missing_keywords = [], keyword_density = [],
                 formatting_issues = [], skills_gap = [], recommendations = []\<rparr>\<rparr>
   \<and> session (handleGenerateQuestions (\<lambda>s. Some \<lparr>questions_r = None\<rparr>) (Inr (Some ''{}''))
         ((initialApp ''s1'' 0 \<lparr>cc_user_session = None, cc_history = Map.empty\<rparr>)
            \<lparr>currentStep := JobDesc,
             session := (initialSession ''s1'' 0)\<lparr>jobDescription := ''Engineer'',
               analysis := Some \<lparr>match_score = 72, missing_keywords = [], keyword_density = [],
                 formatting_issues = [], skills_gap = [], recommendations = []\<rparr>\<rparr>\<rparr>))
      = (initialSession ''s1'' 0)\<lparr>jobDescription := ''Engineer'',
               analysis := Some \<lparr>match_score = 72, missing_keywords = [], keyword_density = [],
                 formatting_issues = [], skills_gap = [], recommendations = []\<rparr>\<rparr>
   \<and> session_p0 (handleAnalyze_p0 (\<lambda>s. None) (Inr (Some ''{}''))
         (initialApp_p0 ''s1'' 0 \<lparr>cc_user_session_p0 = None, cc_history_p0 = Map.empty\<rparr>))
      = initialSession_p0 ''s1'' 0
   \<and> currentStep_p0 (snd (WrittenPracticeSession_handleSubmit (\<lambda>s. None) (Inr (Some ''{}''))
         \<lparr>currentIndex_w = 0, answerText_w = ''a'', isAnalyzing_w = False, feedback_shown_w = None\<rparr>
         (initialApp_p0 ''s1'' 0 \<lparr>cc_user_session_p0 = None, cc_history_p0 = Map.empty\<rparr>)))
      = Landing_p0"
  using failed_stage_keeps_session[of
      "(initialApp ''s1'' 0 \<lparr>cc_user_session = None, cc_history = Map.empty\<rparr>)
            \<lparr>currentStep := JobDesc,
             session := (initialSession ''s1'' 0)\<lparr>jobDescription := ''Engineer'',
               analysis := Some \<lparr>match_score = 72, missing_keywords = [], keyword_density = [],
                 formatting_issues = [], skills_gap = [], recommendations = []\<rparr>\<rparr>\<rparr>"
      "\<lambda>s. None" "Inr (Some ''{}'')" "\<lambda>s. Some \<lparr>versions = Some []\<rparr>"
      "\<lambda>s. Some \<lparr>questions_r = None\<rparr>" "\<lambda>s. None"
      "\<lparr>currentIndex = 0, answerText = ''a'', isAnalyzing = False, feedback_shown = None\<rparr>"
      "initialApp_p0 ''s1'' 0 \<lparr>cc_user_session_p0 = None, cc_history_p0 = Map.empty\<rparr>"
      "\<lparr>currentIndex_w = 0, answerText_w = ''a'', isAnalyzing_w = False, feedback_shown_w = None\<rparr>"]
  by (simp add: analyze_braces initialApp_def initialApp_p0_def)

section \<open>Merging generated lists\<close>

text \<open>
  C4. When resume generation succeeds (an analysis is present, the client returns a result
  whose \<^verbatim>\<open>versions\<close> is a non-empty array), \<open>optimizedResumes\<close> is exactly the new array
  and \<open>selectedResumeIndex\<close> is 0. When cover-letter generation succeeds (the client
  returns a result), \<open>coverLetters\<close> is exactly \<^verbatim>\<open>result.versions\<close> and
  \<open>selectedCoverLetterIndex\<close> is 0. Nothing of the lists before the call remains.
\<close>

theorem generation_replaces_list:
  "(analysis (session st) \<noteq> None \<and> analyzeWithGemini pv r True = Inr (Json res)
      \<and> versions res = Some vs \<and> vs \<noteq> [] \<longrightarrow>
      optimizedResumes (session (handleGenerateOptimizedResumes pv r st)) = vs
      \<and> selectedResumeIndex (session (handleGenerateOptimizedResumes pv r st)) = 0)
   \<and> (analyzeWithGemini pv r True = Inr (Json res) \<longrightarrow>
      coverLetters (session (handleGenerateCoverLetters pv r st)) = versions res
      \<and> selectedCoverLetterIndex (session (handleGenerateCoverLetters pv r st)) = 0)"
  by (auto simp: handleGenerateOptimizedResumes_def handleGenerateCoverLetters_def Let_def)

theorem generation_replaces_list_witness:
  "analysis (session
      ((initialApp ''s1'' 0 \<lparr>cc_user_session = None, cc_history = Map.empty\<rparr>)
         \<lparr>currentStep := Analysis,
          session := (initialSession ''s1'' 0)
             \<lparr>analysis := Some \<lparr>match_score = 72, missing_keywords = [], keyword_density = [],
                 formatting_issues = [], skills_gap = [], recommendations = []\<rparr>,
              coverLetters := Some [\<lparr>id_v = ''old'', name_v = ''Old'', content = ''old''\<rparr>],
              selectedCoverLetterIndex := 2\<rparr>\<rparr>)) \<noteq> None
   \<and> analyzeWithGemini
        (\<lambda>s. Some \<lparr>versions = Some [\<lparr>id_v = ''v1'', name_v = ''Standard Optimized'',
                                         content = ''text''\<rparr>]\<rparr>)
        (Inr (Some ''{}'')) True
      = Inr (Json \<lparr>versions = Some [\<lparr>id_v = ''v1'', name_v = ''Standard Optimized'',
                                        content = ''text''\<rparr>]\<rparr>)
   \<and> optimizedResumes (session (handleGenerateOptimizedResumes
        (\<lambda>s. Some \<lparr>versions = Some [\<lparr>id_v = ''v1'', name_v = ''Standard Optimized'',
                                         content = ''text''\<rparr>]\<rparr>)
        (Inr (Some ''{}''))
        ((initialApp ''s1'' 0 \<lparr>cc_user_session = None, cc_history = Map.empty\<rparr>)
           \<lparr>currentStep := Analysis,
            session := (initialSession ''s1'' 0)
               \<lparr>analysis := Some \<lparr>match_score = 72, missing_keywords = [], keyword_density = [],
                   formatting_issues = [], skills_gap = [], recommendations = []\<rparr>,
                coverLetters := Some [\<lparr>id_v = ''old'', name_v = ''Old'', content = ''old''\<rparr>],
                selectedCoverLetterIndex := 2\<rparr>\<rparr>)))
      = [\<lparr>id_v = ''v1'', name_v = ''Standard Optimized'', content = ''text''\<rparr>]
   \<and> coverLetters (session (handleGenerateCoverLetters
        (\<lambda>s. Some \<lparr>versions = Some [\<lparr>id_v = ''v1'', name_v = ''Standard Optimized'',
                                         content = ''text''\<rparr>]\<rparr>)
        (Inr (Some ''{}''))
        ((initialApp ''s1'' 0 \<lparr>cc_user_session = None, cc_history = Map.empty\<rparr>)
           \<lparr>currentStep := Analysis,
            session := (initialSession ''s1'' 0)
               \<lparr>analysis := Some \<lparr>match_score = 72, missing_keywords = [], keyword_density = [],
                   formatting_issues = [], skills_gap = [], recommendations = []\<rparr>,
                coverLetters := Some [\<lparr>id_v = ''old'', name_v = ''Old'', content = ''old''\<rparr>],
                selectedCoverLetterIndex := 2\<rparr>\<rparr>)))
      = Some [\<lparr>id_v = ''v1'', name_v = ''Standard Optimized'', content = ''text''\<rparr>]
   \<and> selectedCoverLetterIndex (session (handleGenerateCoverLetters
        (\<lambda>s. Some \<lparr>versions = Some [\<lparr>id_v = ''v1'', name_v = ''Standard Optimized'',
                                         content = ''text''\<rparr>]\<rparr>)
        (Inr (Some ''{}''))
        ((initialApp ''s1'' 0 \<lparr>cc_user_session = None, cc_history = Map.empty\<rparr>)
           \<lparr>currentStep := Analysis,
            session := (initialSession ''s1'' 0)
               \<lparr>analysis := Some \<lparr>match_score = 72, missing_keywords = [], keyword_density = [],
                   formatting_issues = [], skills_gap = [], recommendations = []\<rparr>,
                coverLetters := Some [\<lparr>id_v = ''old'', name_v = ''Old'', content = ''old''\<rparr>],
                selectedCoverLetterIndex := 2\<rparr>\<rparr>)))
      = 0"
  using generation_replaces_list[of
      "(initialApp ''s1'' 0 \<lparr>cc_user_session = None, cc_history = Map.empty\<rparr>)
           \<lparr>currentStep := Analysis,
            session := (initialSession ''s1'' 0)
               \<lparr>analysis := Some \<lparr>match_score = 72, missing_keywords = [], keyword_density = [],
                   formatting_issues = [], skills_gap = [], recommendations = []\<rparr>,
                coverLetters := Some [\<lparr>id_v = ''old'', name_v = ''Old'', content = ''old''\<rparr>],
                selectedCoverLetterIndex := 2\<rparr>\<rparr>"
      "\<lambda>s. Some \<lparr>versions = Some [\<lparr>id_v = ''v1'', name_v = ''Standard Optimized'',
                                         content = ''text''\<rparr>]\<rparr>"
      "Inr (Some ''{}'')"
      "\<lparr>versions = Some [\<lparr>id_v = ''v1'', name_v = ''Standard Optimized'', content = ''text''\<rparr>]\<rparr>"
      "[\<lparr>id_v = ''v1'', name_v = ''Standard Optimized'', content = ''text''\<rparr>]"]
  by (simp add: analyze_braces initialApp_def initialSession_def)

text \<open>
  C3. \<^verbatim>\<open>handleGenerateCoverLetters\<close> of \<^verbatim>\<open>src/index.tsx\<close> run on a Session that holds
  one cover letter, with the AI result \<^verbatim>\<open>{"versions": []}\<close>: the empty array replaces the
  stored letter, no error is set and the step becomes \<^verbatim>\<open>cover-letter\<close>. Likewise
  \<^verbatim>\<open>handleGenerateQuestions\<close> of \<^verbatim>\<open>src/unnamed/part_000\<close> with a result that has no
  \<^verbatim>\<open>questions\<close>: the field becomes undefined and the step \<^verbatim>\<open>written-practice\<close>.
\<close>

theorem empty_cover_letters_merged:
  "coverLetters (session
      ((initialApp ''s1'' 0 \<lparr>cc_user_session = None, cc_history = Map.empty\<rparr>)
         \<lparr>currentStep := Analysis,
          session := (initialSession ''s1'' 0)
             \<lparr>coverLetters := Some [\<lparr>id_v = ''cl1'', name_v = ''Professional'',
                                      content = ''Dear Hiring Manager''\<rparr>]\<rparr>\<rparr>))
     = Some [\<lparr>id_v = ''cl1'', name_v = ''Professional'', content = ''Dear Hiring Manager''\<rparr>]
   \<and> coverLetters (session (handleGenerateCoverLetters
        (\<lambda>s. Some \<lparr>versions = Some []\<rparr>) (Inr (Some ''{}''))
        ((initialApp ''s1'' 0 \<lparr>cc_user_session = None, cc_history = Map.empty\<rparr>)
           \<lparr>currentStep := Analysis,
            session := (initialSession ''s1'' 0)
               \<lparr>coverLetters := Some [\<lparr>id_v = ''cl1'', name_v = ''Professional'',
                                        content = ''Dear Hiring Manager''\<rparr>]\<rparr>\<rparr>)))
     = Some []
   \<and> currentStep (handleGenerateCoverLetters
        (\<lambda>s. Some \<lparr>versions = Some []\<rparr>) (Inr (Some ''{}''))
        ((initialApp ''s1'' 0 \<lparr>cc_user_session = None, cc_history = Map.empty\<rparr>)
           \<lparr>currentStep := Analysis,
            session := (initialSession ''s1'' 0)
               \<lparr>coverLetters := Some [\<lparr>id_v = ''cl1'', name_v = ''Professional'',
                                        content = ''Dear Hiring Manager''\<rparr>]\<rparr>\<rparr>))
     = CoverLetter
   \<and> error (handleGenerateCoverLetters
        (\<lambda>s. Some \<lparr>versions = Some []\<rparr>) (Inr (Some ''{}''))
        ((initialApp ''s1'' 0 \<lparr>cc_user_session = None, cc_history = Map.empty\<rparr>)
           \<lparr>currentStep := Analysis,
            session := (initialSession ''s1'' 0)
               \<lparr>coverLetters := Some [\<lparr>id_v = ''cl1'', name_v = ''Professional'',
                                        content = ''Dear Hiring Manager''\<rparr>]\<rparr>\<rparr>))
     = None
   \<and> questions_p0 (session_p0 (handleGenerateQuestions_p0
        (\<lambda>s. Some \<lparr>questions_r = None\<rparr>) (Inr (Some ''{}''))
        ((initialApp_p0 ''s1'' 0 \<lparr>cc_user_session_p0 = None, cc_history_p0 = Map.empty\<rparr>)
           \<lparr>currentStep_p0 := Dashboard_p0\<rparr>)))
     = None
   \<and> currentStep_p0 (handleGenerateQuestions_p0
        (\<lambda>s. Some \<lparr>questions_r = None\<rparr>) (Inr (Some ''{}''))
        ((initialApp_p0 ''s1'' 0 \<lparr>cc_user_session_p0 = None, cc_history_p0 = Map.empty\<rparr>)
           \<lparr>currentStep_p0 := Dashboard_p0\<rparr>))
     = WrittenPractice_p0"
  by (simp add: handleGenerateCoverLetters_def handleGenerateQuestions_p0_def analyze_braces
        navigateTo_def initialApp_def initialSession_def initialApp_p0_def initialSession_p0_def
        Let_def)

section \<open>"Save Changes" and the previous Session\<close>

text \<open>
  C6. One resume version with the text \<^verbatim>\<open>old text\<close>, selected, and the edit
  \<^verbatim>\<open>new text\<close> saved: read in the store after \<^verbatim>\<open>saveResumeChanges\<close>, the Session value
  of before the update holds \<^verbatim>\<open>new text\<close>, because the copied array shares its element
  with the old one. The same for a cover letter.
\<close>

theorem save_changes_mutates_previous_session:
  "optimizedResumes (sessionValue
       (\<lambda>r. \<lparr>id_v = ''v1'', name_v = ''Standard Optimized'', content = ''old text''\<rparr>)
       ((initialSession ''s1'' 0)\<lparr>optimizedResumes := [0]\<rparr>))
     = [\<lparr>id_v = ''v1'', name_v = ''Standard Optimized'', content = ''old text''\<rparr>]
   \<and> optimizedResumes (sessionValue
       (objects (saveResumeChanges ''new text''
          \<lparr>objects = (\<lambda>r. \<lparr>id_v = ''v1'', name_v = ''Standard Optimized'',
                              content = ''old text''\<rparr>),
           session_h = (initialSession ''s1'' 0)\<lparr>optimizedResumes := [0]\<rparr>,
           editingContent_h = Some ''new text''\<rparr>))
       ((initialSession ''s1'' 0)\<lparr>optimizedResumes := [0]\<rparr>))
     = [\<lparr>id_v = ''v1'', name_v = ''Standard Optimized'', content = ''new text''\<rparr>]
   \<and> coverLetters (sessionValue
       (objects (saveCoverLetterChanges ''new text''
          \<lparr>objects = (\<lambda>r. \<lparr>id_v = ''cl1'', name_v = ''Professional'',
                              content = ''old text''\<rparr>),
           session_h = (initialSession ''s1'' 0)\<lparr>coverLetters := Some [0]\<rparr>,
           editingContent_h = Some ''new text''\<rparr>))
       ((initialSession ''s1'' 0)\<lparr>coverLetters := Some [0]\<rparr>))
     = Some [\<lparr>id_v = ''cl1'', name_v = ''Professional'', content = ''new text''\<rparr>]"
  by (simp add: saveResumeChanges_def saveCoverLetterChanges_def sessionValue_def
        initialSession_def Let_def)

section \<open>History and identity\<close>

text \<open>
  C7. After \<^verbatim>\<open>handleLogout\<close> and then \<^verbatim>\<open>handleLogin\<close> as \<open>b\<close>, in either file, the
  history in memory is the list stored under \<^verbatim>\<open>cc_history_<b.email>\<close>, or empty when
  nothing is stored there; the stored lists are as before. Whatever the history held
  before the logout is gone. In \<^verbatim>\<open>src/index.tsx\<close> the first part holds for a login in
  any state: the history in memory is the list then stored under the key of \<open>b\<close>.
\<close>

theorem login_loads_own_history:
  "history (handleLogin b st)
     = (case cc_history (storage (handleLogin b st)) (email b) of
          Some h \<Rightarrow> h | None \<Rightarrow> [])
   \<and> cc_history (storage (handleLogin b (handleLogout st))) = cc_history (storage st)
   \<and> (cc_history (storage st) (email b) = None \<longrightarrow>
        history (handleLogin b (handleLogout st)) = [])
   \<and> history_p0 (handleLogin_p0 b (handleLogout_p0 st'))
     = (case cc_history_p0 (storage_p0 (handleLogin_p0 b (handleLogout_p0 st'))) (email b) of
          Some h \<Rightarrow> h | None \<Rightarrow> [])
   \<and> cc_history_p0 (storage_p0 (handleLogin_p0 b (handleLogout_p0 st')))
     = cc_history_p0 (storage_p0 st')
   \<and> (cc_history_p0 (storage_p0 st') (email b) = None \<longrightarrow>
        history_p0 (handleLogin_p0 b (handleLogout_p0 st')) = [])"
  by (simp add: handleLogin_def handleLogout_def loadHistory_def Let_def
        handleLogin_p0_def handleLogout_p0_def loadHistory_p0_def split: option.splits)

theorem login_loads_own_history_witness:
  "cc_history (storage ((initialApp ''s3'' 2 \<lparr>cc_user_session = Some \<lparr>email = ''a@x.org'', name = ''A''\<rparr>,
        cc_history = [''a@x.org'' \<mapsto> [initialSession ''s1'' 0, initialSession ''s2'' 1]]\<rparr>)
      \<lparr>user := Some \<lparr>email = ''a@x.org'', name = ''A''\<rparr>,
       history := [initialSession ''s1'' 0, initialSession ''s2'' 1]\<rparr>)) ''b@x.org'' = None
   \<and> history (handleLogin \<lparr>email = ''b@x.org'', name = ''B''\<rparr> (handleLogout
     ((initialApp ''s3'' 2 \<lparr>cc_user_session = Some \<lparr>email = ''a@x.org'', name = ''A''\<rparr>,
        cc_history = [''a@x.org'' \<mapsto> [initialSession ''s1'' 0, initialSession ''s2'' 1]]\<rparr>)
      \<lparr>user := Some \<lparr>email = ''a@x.org'', name = ''A''\<rparr>,
       history := [initialSession ''s1'' 0, initialSession ''s2'' 1]\<rparr>))) = []
   \<and> cc_history_p0 (storage_p0 ((initialApp_p0 ''s3'' 2 \<lparr>cc_user_session_p0 = Some \<lparr>email = ''a@x.org'', name = ''A''\<rparr>,
        cc_history_p0 = [''a@x.org'' \<mapsto> [initialSession_p0 ''s1'' 0, initialSession_p0 ''s2'' 1]]\<rparr>)
      \<lparr>user_p0 := Some \<lparr>email = ''a@x.org'', name = ''A''\<rparr>,
       history_p0 := [initialSession_p0 ''s1'' 0, initialSession_p0 ''s2'' 1]\<rparr>)) ''b@x.org'' = None
   \<and> history_p0 (handleLogin_p0 \<lparr>email = ''b@x.org'', name = ''B''\<rparr> (handleLogout_p0
     ((initialApp_p0 ''s3'' 2 \<lparr>cc_user_session_p0 = Some \<lparr>email = ''a@x.org'', name = ''A''\<rparr>,
        cc_history_p0 = [''a@x.org'' \<mapsto> [initialSession_p0 ''s1'' 0, initialSession_p0 ''s2'' 1]]\<rparr>)
      \<lparr>user_p0 := Some \<lparr>email = ''a@x.org'', name = ''A''\<rparr>,
       history_p0 := [initialSession_p0 ''s1'' 0, initialSession_p0 ''s2'' 1]\<rparr>))) = []"
  using login_loads_own_history[of "\<lparr>email = ''b@x.org'', name = ''B''\<rparr>"
     "(initialApp ''s3'' 2 \<lparr>cc_user_session = Some \<lparr>email = ''a@x.org'', name = ''A''\<rparr>,
        cc_history = [''a@x.org'' \<mapsto> [initialSession ''s1'' 0, initialSession ''s2'' 1]]\<rparr>)
      \<lparr>user := Some \<lparr>email = ''a@x.org'', name = ''A''\<rparr>,
       history := [initialSession ''s1'' 0, initialSession ''s2'' 1]\<rparr>"
     "(initialApp_p0 ''s3'' 2 \<lparr>cc_user_session_p0 = Some \<lparr>email = ''a@x.org'', name = ''A''\<rparr>,
        cc_history_p0 = [''a@x.org'' \<mapsto> [initialSession_p0 ''s1'' 0, initialSession_p0 ''s2'' 1]]\<rparr>)
      \<lparr>user_p0 := Some \<lparr>email = ''a@x.org'', name = ''A''\<rparr>,
       history_p0 := [initialSession_p0 ''s1'' 0, initialSession_p0 ''s2'' 1]\<rparr>"]
  by (simp add: initialApp_def initialApp_p0_def)

section \<open>"Analyze Fit" on an empty job description\<close>

text \<open>
  C9, as stated, fails in \<^verbatim>\<open>src/unnamed/part_000\<close>: its \<^verbatim>\<open>handleAnalyze\<close> run on an
  empty job description with a response that parses raises no error, makes the AI call
  and moves to the \<^verbatim>\<open>analysis\<close> step; and a click on its disabled "Analyze Fit"
  button raises no error either.
\<close>

theorem analyze_empty_jd_part0_counterexample:
  "jobDescription_p0 (session_p0
      ((initialApp_p0 ''s1'' 0 \<lparr>cc_user_session_p0 = None, cc_history_p0 = Map.empty\<rparr>)
         \<lparr>currentStep_p0 := JobDesc_p0\<rparr>)) = []
   \<and> error_p0 (handleAnalyze_p0
        (\<lambda>s. Some \<lparr>match_score = 72, missing_keywords = [], keyword_density = [],
                    formatting_issues = [], skills_gap = [], recommendations = []\<rparr>)
        (Inr (Some ''{}''))
        ((initialApp_p0 ''s1'' 0 \<lparr>cc_user_session_p0 = None, cc_history_p0 = Map.empty\<rparr>)
           \<lparr>currentStep_p0 := JobDesc_p0\<rparr>)) = None
   \<and> aiCalls_p0 (handleAnalyze_p0
        (\<lambda>s. Some \<lparr>match_score = 72, missing_keywords = [], keyword_density = [],
                    formatting_issues = [], skills_gap = [], recommendations = []\<rparr>)
        (Inr (Some ''{}''))
        ((initialApp_p0 ''s1'' 0 \<lparr>cc_user_session_p0 = None, cc_history_p0 = Map.empty\<rparr>)
           \<lparr>currentStep_p0 := JobDesc_p0\<rparr>)) = 1
   \<and> currentStep_p0 (handleAnalyze_p0
        (\<lambda>s. Some \<lparr>match_score = 72, missing_keywords = [], keyword_density = [],
                    formatting_issues = [], skills_gap = [], recommendations = []\<rparr>)
        (Inr (Some ''{}''))
        ((initialApp_p0 ''s1'' 0 \<lparr>cc_user_session_p0 = None, cc_history_p0 = Map.empty\<rparr>)
           \<lparr>currentStep_p0 := JobDesc_p0\<rparr>)) = Analysis_p0
   \<and> error_p0 (AnalyzeFit_onClick_p0
        (\<lambda>s. Some \<lparr>match_score = 72, missing_keywords = [], keyword_density = [],
                    formatting_issues = [], skills_gap = [], recommendations = []\<rparr>)
        (Inr (Some ''{}''))
        ((initialApp_p0 ''s1'' 0 \<lparr>cc_user_session_p0 = None, cc_history_p0 = Map.empty\<rparr>)
           \<lparr>currentStep_p0 := JobDesc_p0\<rparr>)) = None"
  by (simp add: handleAnalyze_p0_def AnalyzeFit_onClick_p0_def analyze_braces navigateTo_def
        initialApp_p0_def initialSession_p0_def Let_def)

text \<open>
  C9, amended. With a job description that is blank after trimming, \<^verbatim>\<open>handleAnalyze\<close> of
  \<^verbatim>\<open>src/index.tsx\<close> sets the error "Please enter a job description", makes no AI call and
  leaves the step and the Session as they are. In \<^verbatim>\<open>src/unnamed/part_000\<close> the handler
  has no such check; the "Analyze Fit" button is disabled while the job description is
  empty, so a click changes nothing: no error, no AI call, the same step.
\<close>

theorem analyze_empty_jd_blocked:
  "(trim (jobDescription (session st)) = [] \<longrightarrow>
      error (handleAnalyze pa r st) = Some ''Please enter a job description''
      \<and> aiCalls (handleAnalyze pa r st) = aiCalls st
      \<and> currentStep (handleAnalyze pa r st) = currentStep st
      \<and> session (handleAnalyze pa r st) = session st)
   \<and> (jobDescription_p0 (session_p0 st') = [] \<longrightarrow>
      AnalyzeFit_onClick_p0 pa r st' = st')"
  by (simp add: handleAnalyze_def AnalyzeFit_onClick_p0_def)

theorem analyze_empty_jd_blocked_witness:
  "trim (jobDescription (session
      ((initialApp ''s1'' 0 \<lparr>cc_user_session = None, cc_history = Map.empty\<rparr>)
         \<lparr>currentStep := JobDesc, jobInputMode := UrlMode\<rparr>))) = []
   \<and> error (handleAnalyze (\<lambda>s. None) (Inr (Some ''{}''))
        ((initialApp ''s1'' 0 \<lparr>cc_user_session = None, cc_history = Map.empty\<rparr>)
           \<lparr>currentStep := JobDesc, jobInputMode := UrlMode\<rparr>))
      = Some ''Please enter a job description''
   \<and> aiCalls (handleAnalyze (\<lambda>s. None) (Inr (Some ''{}''))
        ((initialApp ''s1'' 0 \<lparr>cc_user_session = None, cc_history = Map.empty\<rparr>)
           \<lparr>currentStep := JobDesc, jobInputMode := UrlMode\<rparr>)) = 0
   \<and> currentStep (handleAnalyze (\<lambda>s. None) (Inr (Some ''{}''))
        ((initialApp ''s1'' 0 \<lparr>cc_user_session = None, cc_history = Map.empty\<rparr>)
           \<lparr>currentStep := JobDesc, jobInputMode := UrlMode\<rparr>)) = JobDesc
   \<and> jobDescription_p0 (session_p0
      ((initialApp_p0 ''s1'' 0 \<lparr>cc_user_session_p0 = None, cc_history_p0 = Map.empty\<rparr>)
         \<lparr>currentStep_p0 := JobDesc_p0\<rparr>)) = []
   \<and> currentStep_p0 (AnalyzeFit_onClick_p0 (\<lambda>s. None) (Inr (Some ''{}''))
      ((initialApp_p0 ''s1'' 0 \<lparr>cc_user_session_p0 = None, cc_history_p0 = Map.empty\<rparr>)
         \<lparr>currentStep_p0 := JobDesc_p0\<rparr>)) = JobDesc_p0"
  using analyze_empty_jd_blocked[of
      "(initialApp ''s1'' 0 \<lparr>cc_user_session = None, cc_history = Map.empty\<rparr>)
         \<lparr>currentStep := JobDesc, jobInputMode := UrlMode\<rparr>"
      "\<lambda>s. None" "Inr (Some ''{}'')"
      "(initialApp_p0 ''s1'' 0 \<lparr>cc_user_session_p0 = None, cc_history_p0 = Map.empty\<rparr>)
         \<lparr>currentStep_p0 := JobDesc_p0\<rparr>"]
  by (simp add: initialApp_def initialSession_def initialApp_p0_def initialSession_p0_def
        trim_def)

section \<open>Back navigation\<close>

text \<open>
  C1. In any state, and so after any sequence of \<^verbatim>\<open>navigateTo\<close> calls, \<^verbatim>\<open>handleBack\<close>
  right after \<^verbatim>\<open>navigateTo(s)\<close> gives back the state before that call: the same
  current step and the same back-stack. On an empty back-stack \<^verbatim>\<open>handleBack\<close> changes
  nothing; the function is total, so nothing is thrown.
\<close>

theorem goBack_reverses_navigateTo:
  "handleBack (navigateTo s st) = st
   \<and> handleBack (st\<lparr>stepHistory := []\<rparr>) = st\<lparr>stepHistory := []\<rparr>"
  by (simp add: handleBack_def navigateTo_def)

section \<open>Answer records\<close>

lemma findIndex_ge: "- 1 \<le> findIndex P xs"
  by (induction xs) (auto simp: Let_def)

lemma findIndex_none: "findIndex P xs = - 1 \<longleftrightarrow> (\<forall>x\<in>set xs. \<not> P x)"
proof (induction xs)
  case Nil
  then show ?case by simp
next
  case (Cons x xs)
  have "- 1 \<le> findIndex P xs" by (rule findIndex_ge)
  then have "findIndex P xs + 1 \<noteq> - 1" by simp
  with Cons show ?case by (simp add: Let_def)
qed

lemma splice_findIndex_filter:
  assumes "distinct (map f xs)"
  shows "(if findIndex (\<lambda>a. f a = i) xs > - 1 then splice1 (findIndex (\<lambda>a. f a = i) xs) xs else xs)
         = filter (\<lambda>a. f a \<noteq> i) xs"
  using assms
proof (induction xs)
  case Nil
  then show ?case by simp
next
  case (Cons x xs)
  let ?P = "\<lambda>a. f a = i"
  show ?case
  proof (cases "f x = i")
    case True
    with Cons.prems have "\<forall>y\<in>set xs. f y \<noteq> i" by (auto simp: image_iff)
    then have "filter (\<lambda>a. f a \<noteq> i) xs = xs" by (simp add: filter_id_conv)
    with True show ?thesis by (simp add: splice1_def)
  next
    case False
    have ge: "- 1 \<le> findIndex ?P xs" by (rule findIndex_ge)
    from Cons have IH: "(if findIndex ?P xs > - 1 then splice1 (findIndex ?P xs) xs else xs)
         = filter (\<lambda>a. f a \<noteq> i) xs" by simp
    show ?thesis
    proof (cases "findIndex ?P xs = - 1")
      case True
      with False IH show ?thesis by (simp add: Let_def)
    next
      case neq: False
      with ge have pos: "0 \<le> findIndex ?P xs" by simp
      then have "nat (findIndex ?P xs + 1) = Suc (nat (findIndex ?P xs))" by simp
      with False neq pos IH show ?thesis
        by (simp add: Let_def splice1_def)
    qed
  qed
qed

lemma onAnswerSubmit_answers:
  assumes "distinct (map questionIndex (answers (session st)))"
  shows "answers (session (onAnswerSubmit i ans fb st))
         = filter (\<lambda>a. questionIndex a \<noteq> i) (answers (session st))
           @ [\<lparr>questionIndex = i, userAnswer = ans, feedback = Some fb\<rparr>]"
  using splice_findIndex_filter[OF assms, of i]
  by (simp add: onAnswerSubmit_def Let_def)

lemma onAnswerSubmit_distinct:
  assumes "distinct (map questionIndex (answers (session st)))"
  shows "distinct (map questionIndex (answers (session (onAnswerSubmit i ans fb st))))"
  using assms by (auto simp: onAnswerSubmit_answers[OF assms] distinct_map_filter)

lemma submissions_distinct:
  "distinct (map questionIndex (answers (session st))) \<Longrightarrow>
   distinct (map questionIndex (answers (session
     (foldl (\<lambda>s (j, a, f). onAnswerSubmit j a f s) st subs))))"
proof (induction subs arbitrary: st)
  case Nil
  then show ?case by simp
next
  case (Cons x subs)
  obtain j a f where x: "x = (j, a, f)" by (cases x)
  from Cons.prems have "distinct (map questionIndex (answers (session (onAnswerSubmit j a f st))))"
    by (rule onAnswerSubmit_distinct)
  from Cons.IH[OF this] x show ?case by simp
qed

text \<open>
  C5. In \<^verbatim>\<open>src/index.tsx\<close> the answer list starts empty and changes only by
  \<^verbatim>\<open>onAnswerSubmit\<close>: after any submissions \<open>subs\<close>, submitting an answer and its
  feedback for question \<open>i\<close> leaves exactly one record with index \<open>i\<close>, holding that
  answer and feedback. In \<^verbatim>\<open>src/unnamed/part_000\<close> this holds from any state \<open>st'\<close>.
\<close>

theorem answer_upsert_exactly_one:
  "(answers (session st) = [] \<longrightarrow>
      filter (\<lambda>a. questionIndex a = i)
        (answers (session (onAnswerSubmit i ans fb
           (foldl (\<lambda>s (j, a, f). onAnswerSubmit j a f s) st subs))))
      = [\<lparr>questionIndex = i, userAnswer = ans, feedback = Some fb\<rparr>])
   \<and> filter (\<lambda>a. questionIndex_w a = i)
        (writtenAnswers (session_p0 (onAnswerSubmit_p0 i ans fb st')))
      = [\<lparr>questionIndex_w = i, answer = ans, feedback_w = Some fb\<rparr>]"
proof (intro conjI impI)
  assume "answers (session st) = []"
  then have "distinct (map questionIndex (answers (session st)))" by simp
  then have d: "distinct (map questionIndex (answers (session
     (foldl (\<lambda>s (j, a, f). onAnswerSubmit j a f s) st subs))))"
    by (rule submissions_distinct)
  show "filter (\<lambda>a. questionIndex a = i)
        (answers (session (onAnswerSubmit i ans fb
           (foldl (\<lambda>s (j, a, f). onAnswerSubmit j a f s) st subs))))
      = [\<lparr>questionIndex = i, userAnswer = ans, feedback = Some fb\<rparr>]"
    by (simp add: onAnswerSubmit_answers[OF d])
next
  show "filter (\<lambda>a. questionIndex_w a = i)
        (writtenAnswers (session_p0 (onAnswerSubmit_p0 i ans fb st')))
      = [\<lparr>questionIndex_w = i, answer = ans, feedback_w = Some fb\<rparr>]"
    by (simp add: onAnswerSubmit_p0_def Let_def)
qed

theorem answer_upsert_exactly_one_witness:
  "answers (session (initialApp ''s1'' 0 \<lparr>cc_user_session = None, cc_history = Map.empty\<rparr>)) = []
   \<and> filter (\<lambda>a. questionIndex a = 0)
        (answers (session (onAnswerSubmit 0 ''second'' \<lparr>score = 9, strengths = [], improvements = [],
          model_answer = ''m'', specific_feedback = ''s''\<rparr>
           (foldl (\<lambda>s (j, a, f). onAnswerSubmit j a f s)
              (initialApp ''s1'' 0 \<lparr>cc_user_session = None, cc_history = Map.empty\<rparr>)
              [(0, ''first'', \<lparr>score = 7, strengths = [], improvements = [],
          model_answer = ''m'', specific_feedback = ''s''\<rparr>), (1, ''other'', \<lparr>score = 7, strengths = [], improvements = [],
          model_answer = ''m'', specific_feedback = ''s''\<rparr>)]))))
      = [\<lparr>questionIndex = 0, userAnswer = ''second'', feedback = Some \<lparr>score = 9, strengths = [], improvements = [],
          model_answer = ''m'', specific_feedback = ''s''\<rparr>\<rparr>]"
  using answer_upsert_exactly_one[of "initialApp ''s1'' 0 \<lparr>cc_user_session = None, cc_history = Map.empty\<rparr>" 0 "''second''" "\<lparr>score = 9, strengths = [], improvements = [],
          model_answer = ''m'', specific_feedback = ''s''\<rparr>" "[(0, ''first'', \<lparr>score = 7, strengths = [], improvements = [],
          model_answer = ''m'', specific_feedback = ''s''\<rparr>), (1, ''other'', \<lparr>score = 7, strengths = [], improvements = [],
          model_answer = ''m'', specific_feedback = ''s''\<rparr>)]"]
  by (simp add: initialApp_def initialSession_def)

end
